theory Spec2Isabelle
  imports Complex_Main "HOL-Library.Product_Lexorder" "HOL-Library.Multiset"
begin

chapter \<open>The league protocol of ex7: definitions\<close>

section \<open>Python values used throughout\<close>

text \<open>
  \<open>str_int\<close> is Python's \<open>str\<close> on an \<open>int\<close> (as used by the f-strings of the source):
  decimal digits, most significant first, with a leading minus sign for a negative number.
\<close>

definition digit_char :: "nat \<Rightarrow> char" where
  "digit_char d = ''0123456789'' ! (d mod 10)"

fun str_nat :: "nat \<Rightarrow> string" where
  "str_nat n = (if n < 10 then [digit_char n] else str_nat (n div 10) @ [digit_char (n mod 10)])"

definition str_int :: "int \<Rightarrow> string" where
  "str_int i = (if i < 0 then CHR ''-'' # str_nat (nat (- i)) else str_nat (nat i))"

text \<open>
  A Python \<open>dict\<close> keeps its keys in insertion order: it is an association list with
  distinct keys, read with \<open>map_of\<close>. \<open>dict_set k v d\<close> is \<open>d[k] = v\<close>: an existing key keeps
  its place, a new key goes to the end.
\<close>

fun dict_set :: "'k \<Rightarrow> 'v \<Rightarrow> ('k \<times> 'v) list \<Rightarrow> ('k \<times> 'v) list" where
  "dict_set k v [] = [(k, v)]"
| "dict_set k v ((k', v') # d) = (if k' = k then (k, v) # d else (k', v') # dict_set k v d)"

text \<open>
  The values of a dictionary are objects: \<open>mutate k f d\<close> changes the object that \<open>d\<close>
  holds under \<open>k\<close> in place, and does nothing when there is none.
\<close>

definition mutate :: "'k \<Rightarrow> ('v \<Rightarrow> 'v) \<Rightarrow> ('k \<times> 'v) list \<Rightarrow> ('k \<times> 'v) list" where
  "mutate k f d = (case map_of d k of None \<Rightarrow> d | Some v \<Rightarrow> dict_set k (f v) d)"

text \<open>
  The JSON documents exchanged over HTTP (\<open>dict[str, Any]\<close> in the source). An object
  is an association list read with \<open>map_of\<close>; numbers are the integers the protocol
  carries.
\<close>

datatype json = JNull | JBool bool | JNum int | JStr string | JArr "json list" | JObj "(string \<times> json) list"

section \<open>Scheduler (agents/league_manager/scheduler.py)\<close>

text \<open>
  The dataclass \<open>Match\<close> of agents/league_manager/state.py, with its defaults. The
  fields \<open>winner\<close> and \<open>result\<close> receive the JSON values of a report; \<open>JNull\<close> is \<open>None\<close>.
\<close>

record match =
  match_id :: string
  round_id :: int
  player_a_id :: string
  player_b_id :: string
  status :: string
  winner :: json
  result :: json

definition Match :: "string \<Rightarrow> int \<Rightarrow> string \<Rightarrow> string \<Rightarrow> match" where
  "Match mid rid a b = \<lparr>match_id = mid, round_id = rid, player_a_id = a, player_b_id = b,
     status = ''PENDING'', winner = JNull, result = JNull\<rparr>"

text \<open>
  \<open>itertools.combinations(xs, 2)\<close>: the pairs of positions \<open>i < j\<close> in lexicographic
  order of the positions.
\<close>

fun combinations2 :: "'a list \<Rightarrow> ('a \<times> 'a) list" where
  "combinations2 [] = []"
| "combinations2 (x # xs) = map (Pair x) xs @ combinations2 xs"

text \<open>
  The \<open>for\<close> loop of \<open>create_round_robin_schedule\<close>, with its two loop variables
  \<open>match_num\<close> and \<open>matches\<close>; \<open>//\<close> is floor division, as \<open>div\<close> on \<open>int\<close>.
\<close>

fun schedule_loop :: "(string \<times> string) list \<Rightarrow> int \<Rightarrow> match list \<Rightarrow> match list" where
  "schedule_loop [] match_num matches = matches"
| "schedule_loop ((p1, p2) # ps) match_num matches =
     (let rid = (match_num - 1) div 2 + 1;
          m = Match (''R'' @ str_int rid @ ''M'' @ str_int match_num) rid p1 p2
      in schedule_loop ps (match_num + 1) (matches @ [m]))"

definition create_round_robin_schedule :: "string list \<Rightarrow> match list" where
  "create_round_robin_schedule player_ids = schedule_loop (combinations2 player_ids) 1 []"

definition get_matches_for_round :: "match list \<Rightarrow> int \<Rightarrow> match list" where
  "get_matches_for_round schedule r = filter (\<lambda>m. round_id m = r) schedule"

text \<open>The unordered pair of players that meet in a match.\<close>

definition pairing :: "match \<Rightarrow> string set" where
  "pairing m = {player_a_id m, player_b_id m}"

section \<open>Game rules (agents/referee/game_logic.py)\<close>

text \<open>
  \<open>str.lower\<close> on the ASCII letters; every other character is left as it is. The
  properties below hold for whatever \<open>lower\<close> does to a character.
\<close>

definition lower_char :: "char \<Rightarrow> char" where
  "lower_char c =
     (case map_of (zip ''ABCDEFGHIJKLMNOPQRSTUVWXYZ'' ''abcdefghijklmnopqrstuvwxyz'') c of
        Some l \<Rightarrow> l
      | None \<Rightarrow> c)"

definition lower :: "string \<Rightarrow> string" where
  "lower s = map lower_char s"

definition get_parity :: "int \<Rightarrow> string" where
  "get_parity number = (if number mod 2 = 0 then ''even'' else ''odd'')"

text \<open>The result is the triple (winner, parity, reason); the winner \<open>None\<close> is a draw.\<close>

definition determine_winner :: "string \<Rightarrow> string \<Rightarrow> int \<Rightarrow> string option \<times> string \<times> string" where
  "determine_winner choice_a choice_b number =
     (let parity = get_parity number;
          a_correct = (lower choice_a = parity);
          b_correct = (lower choice_b = parity)
      in if a_correct \<and> \<not> b_correct then
           (Some ''PLAYER_A'', parity,
            ''Player A chose '' @ choice_a @ '', number was '' @ str_int number @ '' ('' @ parity @ '')'')
         else if b_correct \<and> \<not> a_correct then
           (Some ''PLAYER_B'', parity,
            ''Player B chose '' @ choice_b @ '', number was '' @ str_int number @ '' ('' @ parity @ '')'')
         else
           (None, parity,
            ''Draw - both chose '' @ (if a_correct then ''correctly'' else ''incorrectly'')
              @ '', number was '' @ str_int number @ '' ('' @ parity @ '')''))"

definition validate_parity_choice :: "string \<Rightarrow> bool" where
  "validate_parity_choice choice = (lower choice \<in> set [''even'', ''odd''])"

text \<open>
  The score dictionary. A dictionary literal with the same key twice keeps one entry, the
  later value; \<open>dict_set\<close> does the same.
\<close>

definition calculate_score :: "string option \<Rightarrow> string \<Rightarrow> string \<Rightarrow> (string \<times> int) list" where
  "calculate_score winner_role a b =
     (if winner_role = None then dict_set b 1 (dict_set a 1 [])
      else if winner_role = Some ''PLAYER_A'' then dict_set b 0 (dict_set a 3 [])
      else dict_set b 3 (dict_set a 0 []))"

section \<open>Transport client (SHARED/league_sdk/http_client.py)\<close>

record retry_config =
  max_retries :: int
  base_delay :: real
  backoff_multiplier :: real
  retryable_codes :: "string list"

definition RetryConfig :: retry_config where
  "RetryConfig = \<lparr>max_retries = 3, base_delay = 2, backoff_multiplier = 2,
     retryable_codes = [''E001'', ''E009'']\<rparr>"

text \<open>
  What one \<open>requests.post\<close> can do: answer with an HTTP status, the text of the
  \<open>HTTPError\<close> that \<open>raise_for_status\<close> would raise for it and the decoded JSON body
  (\<open>None\<close> when the body is not JSON, so that \<open>response.json()\<close> raises); raise
  \<open>requests.Timeout\<close>; raise \<open>requests.ConnectionError\<close>; or raise anything else. The
  strings are \<open>str(e)\<close> of the exception.
\<close>

datatype post_outcome =
    Response int string "json option"
  | Timeout string
  | ConnectionError string
  | OtherException string

text \<open>\<open>Response.raise_for_status\<close> raises for the client and server error statuses.\<close>

definition raises_for_status :: "int \<Rightarrow> bool" where
  "raises_for_status status_code = (400 \<le> status_code \<and> status_code < 600)"

text \<open>What the client does to the outside world, in order.\<close>

datatype client_event = Post nat | Sleep real

text \<open>
  \<open>_calculate_delay\<close>. The delays are floating-point numbers in the source and reals here;
  the two agree on the values used below, which are small powers of two.
\<close>

definition calculate_delay :: "retry_config \<Rightarrow> nat \<Rightarrow> real" where
  "calculate_delay cfg attempt = base_delay cfg * backoff_multiplier cfg ^ attempt"

definition http_error_response :: "string \<Rightarrow> int \<Rightarrow> json" where
  "http_error_response e request_id =
     JObj [(''jsonrpc'', JStr ''2.0''),
           (''error'', JObj [(''code'', JNum (- 32000)),
                            (''message'', JStr (''HTTP error: '' @ e))]),
           (''id'', JNum request_id)]"

definition retries_exhausted_response :: "string option \<Rightarrow> int \<Rightarrow> json" where
  "retries_exhausted_response last_error request_id =
     JObj [(''jsonrpc'', JStr ''2.0''),
           (''error'', JObj [(''code'', JNum (- 32001)),
                            (''message'', JStr (''Max retries exceeded: ''
                               @ (case last_error of None \<Rightarrow> ''None'' | Some e \<Rightarrow> e))),
                            (''data'', JObj [(''error_code'', JStr ''E009''),
                                            (''error_description'', JStr ''CONNECTION_ERROR'')])]),
           (''id'', JNum request_id)]"

text \<open>
  The \<open>for attempt in range(max_retries)\<close> loop of \<open>MCPClient.call\<close>, from attempt number
  \<open>attempt\<close> on. \<open>env attempt\<close> is what the post of that attempt does. The result is the
  returned dictionary (\<open>Inr\<close>) or the exception that leaves \<open>call\<close> (\<open>Inl\<close>), with the
  posts and sleeps performed.
\<close>

function call_loop ::
  "retry_config \<Rightarrow> (nat \<Rightarrow> post_outcome) \<Rightarrow> int \<Rightarrow> nat \<Rightarrow> string option
     \<Rightarrow> (string + json) \<times> client_event list" where
  "call_loop cfg env request_id attempt last_error =
     (if int attempt < max_retries cfg then
        (case env attempt of
           Response status_code e body \<Rightarrow>
             (if raises_for_status status_code
              then (Inr (http_error_response e request_id), [Post attempt])
              else (case body of
                      Some b \<Rightarrow> (Inr b, [Post attempt])
                    | None \<Rightarrow> (Inl ''JSONDecodeError'', [Post attempt])))
         | Timeout e \<Rightarrow>
             (let (r, evs) = call_loop cfg env request_id (Suc attempt) (Some e)
              in (r, Post attempt
                     # (if int attempt < max_retries cfg - 1
                        then [Sleep (calculate_delay cfg attempt)] else []) @ evs))
         | ConnectionError e \<Rightarrow>
             (let (r, evs) = call_loop cfg env request_id (Suc attempt) (Some e)
              in (r, Post attempt
                     # (if int attempt < max_retries cfg - 1
                        then [Sleep (calculate_delay cfg attempt)] else []) @ evs))
         | OtherException e \<Rightarrow> (Inl e, [Post attempt]))
      else (Inr (retries_exhausted_response last_error request_id), []))"
  by pat_completeness auto
termination
  by (relation "measure (\<lambda>(cfg, env, request_id, attempt, last_error).
        nat (max_retries cfg - int attempt))") auto

declare call_loop.simps [simp del]

record mcp_client =
  retry_config :: retry_config
  request_id :: int

definition MCPClient :: "retry_config option \<Rightarrow> mcp_client" where
  "MCPClient cfg = \<lparr>retry_config = (case cfg of None \<Rightarrow> RetryConfig | Some c \<Rightarrow> c), request_id = 0\<rparr>"

text \<open>
  \<open>MCPClient.call\<close>: the request takes the next request id, then the loop runs. The
  endpoint, method, parameters and timeout go into every post unchanged and decide nothing
  here; what the posts do is \<open>env\<close>.
\<close>

definition call :: "mcp_client \<Rightarrow> (nat \<Rightarrow> post_outcome)
     \<Rightarrow> ((string + json) \<times> client_event list) \<times> mcp_client" where
  "call client env =
     (let client' = client\<lparr>request_id := request_id client + 1\<rparr>
      in (call_loop (retry_config client') env (request_id client') 0 None, client'))"

text \<open>
  \<open>MCPClient.call_no_retry\<close>: the request takes the next request id and is posted once.
  A timeout gives the structured error with code E001, a connection failure the one with
  code E009, an HTTP error status the HTTP error; anything else leaves the client.
\<close>

definition timeout_error_response :: "int \<Rightarrow> json" where
  "timeout_error_response rid =
     JObj [(''jsonrpc'', JStr ''2.0''),
           (''error'', JObj [(''code'', JNum (- 32001)),
                            (''message'', JStr ''Request timeout''),
                            (''data'', JObj [(''error_code'', JStr ''E001''),
                                            (''error_description'', JStr ''TIMEOUT_ERROR'')])]),
           (''id'', JNum rid)]"

definition connection_error_response :: "string \<Rightarrow> int \<Rightarrow> json" where
  "connection_error_response e rid =
     JObj [(''jsonrpc'', JStr ''2.0''),
           (''error'', JObj [(''code'', JNum (- 32001)),
                            (''message'', JStr (''Connection error: '' @ e)),
                            (''data'', JObj [(''error_code'', JStr ''E009''),
                                            (''error_description'', JStr ''CONNECTION_ERROR'')])]),
           (''id'', JNum rid)]"

definition call_no_retry :: "mcp_client \<Rightarrow> post_outcome
     \<Rightarrow> ((string + json) \<times> client_event list) \<times> mcp_client" where
  "call_no_retry client outcome =
     (let client' = client\<lparr>request_id := request_id client + 1\<rparr>;
          rid = request_id client'
      in ((case outcome of
             Response status_code e body \<Rightarrow>
               (if raises_for_status status_code then Inr (http_error_response e rid)
                else (case body of Some b \<Rightarrow> Inr b | None \<Rightarrow> Inl ''JSONDecodeError''))
           | Timeout e \<Rightarrow> Inr (timeout_error_response rid)
           | ConnectionError e \<Rightarrow> Inr (connection_error_response e rid)
           | OtherException e \<Rightarrow> Inl e,
           [Post 0]),
          client'))"

text \<open>The machine-readable code of an error response: \<open>response["error"]["data"]["error_code"]\<close>.\<close>

definition error_code :: "json \<Rightarrow> json option" where
  "error_code response =
     (case response of
        JObj fs \<Rightarrow> (case map_of fs ''error'' of
           Some (JObj es) \<Rightarrow> (case map_of es ''data'' of
              Some (JObj ds) \<Rightarrow> map_of ds ''error_code''
            | _ \<Rightarrow> None)
         | _ \<Rightarrow> None)
      | _ \<Rightarrow> None)"

text \<open>Its description: \<open>response["error"]["data"]["error_description"]\<close>.\<close>

definition error_description :: "json \<Rightarrow> json option" where
  "error_description response =
     (case response of
        JObj fs \<Rightarrow> (case map_of fs ''error'' of
           Some (JObj es) \<Rightarrow> (case map_of es ''data'' of
              Some (JObj ds) \<Rightarrow> map_of ds ''error_description''
            | _ \<Rightarrow> None)
         | _ \<Rightarrow> None)
      | _ \<Rightarrow> None)"

text \<open>Two behaviours of the network used as examples below.\<close>

definition always_times_out :: "nat \<Rightarrow> post_outcome" where
  "always_times_out attempt = Timeout ''Read timed out.''"

definition times_out_then_503 :: "nat \<Rightarrow> post_outcome" where
  "times_out_then_503 attempt =
     (if attempt = 0 then Timeout ''Read timed out.''
      else Response 503 ''503 Server Error'' None)"

section \<open>League state (agents/league_manager/state.py)\<close>

text \<open>
  Field names that several dataclasses of the source share carry a prefix here:
  \<open>rr_\<close> for \<open>RegisteredReferee\<close>, \<open>rp_\<close> for \<open>RegisteredPlayer\<close>, \<open>ps_\<close> for
  \<open>PlayerStanding\<close>, and below \<open>am_\<close> for \<open>ActiveMatch\<close> and \<open>rs_\<close> for \<open>RefereeState\<close>.
\<close>

text \<open>
  The format specification \<open>02d\<close> of the f-strings that build the ids: at least two
  characters, padded with zeros after the sign.
\<close>

definition format_02d :: "int \<Rightarrow> string" where
  "format_02d i =
     (if i < 0 then str_int i
      else replicate (2 - length (str_nat (nat i))) CHR ''0'' @ str_nat (nat i))"

text \<open>\<open>game_types or ["even_odd"]\<close>: \<open>None\<close> and the empty list are both false.\<close>

definition game_types_or_default :: "string list option \<Rightarrow> string list" where
  "game_types_or_default game_types =
     (case game_types of None \<Rightarrow> [''even_odd''] | Some [] \<Rightarrow> [''even_odd''] | Some gs \<Rightarrow> gs)"

record registered_referee =
  rr_referee_id :: string
  rr_display_name :: string
  rr_endpoint :: string
  rr_auth_token :: string
  rr_version :: string
  rr_game_types :: "string list"
  rr_max_concurrent_matches :: int
  rr_active_matches :: int

record registered_player =
  rp_player_id :: string
  rp_display_name :: string
  rp_endpoint :: string
  rp_auth_token :: string
  rp_version :: string
  rp_game_types :: "string list"

record player_standing =
  ps_player_id :: string
  ps_display_name :: string
  played :: int
  wins :: int
  draws :: int
  losses :: int
  points :: int

definition PlayerStanding :: "string \<Rightarrow> string \<Rightarrow> player_standing" where
  "PlayerStanding pid name = \<lparr>ps_player_id = pid, ps_display_name = name,
     played = 0, wins = 0, draws = 0, losses = 0, points = 0\<rparr>"

definition to_dict :: "player_standing \<Rightarrow> int \<Rightarrow> json" where
  "to_dict s rank =
     JObj [(''rank'', JNum rank),
           (''player_id'', JStr (ps_player_id s)),
           (''display_name'', JStr (ps_display_name s)),
           (''played'', JNum (played s)),
           (''wins'', JNum (wins s)),
           (''draws'', JNum (draws s)),
           (''losses'', JNum (losses s)),
           (''points'', JNum (points s))]"

text \<open>
  \<open>LeagueState\<close>. \<open>data_files\<close> stands for the \<open>DataLoader\<close>: the documents this state has
  written under its data root, by path. Writes are taken to succeed.
\<close>

record league_state =
  league_id :: string
  referees :: "(string \<times> registered_referee) list"
  players :: "(string \<times> registered_player) list"
  auth_tokens :: "(string \<times> string) list"
  standings :: "(string \<times> player_standing) list"
  schedule :: "match list"
  current_round :: int
  rounds_completed :: int
  next_referee_num :: int
  next_player_num :: int
  data_files :: "(string \<times> json) list"

definition LeagueState :: "string \<Rightarrow> league_state" where
  "LeagueState lid = \<lparr>league_id = lid, referees = [], players = [], auth_tokens = [],
     standings = [], schedule = [], current_round = 0, rounds_completed = 0,
     next_referee_num = 1, next_player_num = 1, data_files = []\<rparr>"

text \<open>
  \<open>register_referee\<close> and \<open>register_player\<close>. The token that \<open>generate_auth_token\<close> draws
  from the system's randomness is the argument \<open>auth_token\<close>.
\<close>

definition register_referee ::
  "league_state \<Rightarrow> string \<Rightarrow> string \<Rightarrow> string \<Rightarrow> string list option \<Rightarrow> int \<Rightarrow> string
     \<Rightarrow> registered_referee \<times> league_state" where
  "register_referee s display_name endpoint version game_types max_concurrent_matches auth_token =
     (let referee_id = ''REF'' @ format_02d (next_referee_num s);
          s1 = s\<lparr>next_referee_num := next_referee_num s + 1\<rparr>;
          referee = \<lparr>rr_referee_id = referee_id, rr_display_name = display_name,
                     rr_endpoint = endpoint, rr_auth_token = auth_token, rr_version = version,
                     rr_game_types = game_types_or_default game_types,
                     rr_max_concurrent_matches = max_concurrent_matches,
                     rr_active_matches = 0\<rparr>;
          s2 = s1\<lparr>referees := dict_set referee_id referee (referees s1)\<rparr>;
          s3 = s2\<lparr>auth_tokens := dict_set auth_token referee_id (auth_tokens s2)\<rparr>
      in (referee, s3))"

definition register_player ::
  "league_state \<Rightarrow> string \<Rightarrow> string \<Rightarrow> string \<Rightarrow> string list option \<Rightarrow> string
     \<Rightarrow> registered_player \<times> league_state" where
  "register_player s display_name endpoint version game_types auth_token =
     (let player_id = ''P'' @ format_02d (next_player_num s);
          s1 = s\<lparr>next_player_num := next_player_num s + 1\<rparr>;
          player = \<lparr>rp_player_id = player_id, rp_display_name = display_name,
                    rp_endpoint = endpoint, rp_auth_token = auth_token, rp_version = version,
                    rp_game_types = game_types_or_default game_types\<rparr>;
          s2 = s1\<lparr>players := dict_set player_id player (players s1)\<rparr>;
          s3 = s2\<lparr>auth_tokens := dict_set auth_token player_id (auth_tokens s2)\<rparr>;
          s4 = s3\<lparr>standings := dict_set player_id (PlayerStanding player_id display_name)
                                     (standings s3)\<rparr>
      in (player, s4))"

text \<open>
  \<open>get_ranked_standings\<close>: \<open>sorted\<close> is a stable sort by the key, as \<open>sort_key\<close> is; tuples
  are compared lexicographically.
\<close>

definition ranking_key :: "player_standing \<Rightarrow> int \<times> int \<times> int" where
  "ranking_key s = (- points s, - wins s, - draws s)"

definition sorted_standings :: "league_state \<Rightarrow> player_standing list" where
  "sorted_standings s = sort_key ranking_key (map snd (standings s))"

definition get_ranked_standings :: "league_state \<Rightarrow> json list" where
  "get_ranked_standings s =
     map (\<lambda>(rank, st). to_dict st (int rank + 1)) (enumerate 0 (sorted_standings s))"

text \<open>\<open>_save_standings\<close>; \<open>now\<close> is what \<open>utc_timestamp()\<close> returns.\<close>

definition save_standings :: "league_state \<Rightarrow> string \<Rightarrow> league_state" where
  "save_standings s now =
     s\<lparr>data_files :=
         dict_set (''leagues/'' @ league_id s @ ''/standings.json'')
           (JObj [(''schema_version'', JStr ''1.0.0''),
                  (''league_id'', JStr (league_id s)),
                  (''last_updated'', JStr now),
                  (''rounds_completed'', JNum (rounds_completed s)),
                  (''standings'', JArr (get_ranked_standings s))])
           (data_files s)\<rparr>"

definition save_match_result :: "league_state \<Rightarrow> string \<Rightarrow> json \<Rightarrow> league_state" where
  "save_match_result s mid doc =
     s\<lparr>data_files :=
         dict_set (''matches/'' @ league_id s @ ''/'' @ mid @ ''.json'') doc (data_files s)\<rparr>"

text \<open>
  \<open>update_standings_for_match\<close>. The two standings are objects held by the dictionary,
  changed in place one statement after the other: \<open>mutate k f\<close> changes the object under
  key \<open>k\<close>, so that with \<open>player_a_id = player_b_id\<close> both names denote one object, as in
  the source. The winner is the JSON value of the report; \<open>JNull\<close> is \<open>None\<close>.
\<close>

definition update_standings_for_match ::
  "league_state \<Rightarrow> string \<Rightarrow> string \<Rightarrow> json \<Rightarrow> string \<Rightarrow> league_state" where
  "update_standings_for_match s a b w now =
     (if map_of (standings s) a = None \<or> map_of (standings s) b = None then s
      else
        (let d = standings s;
             d = mutate a (\<lambda>v. v\<lparr>played := played v + 1\<rparr>) d;
             d = mutate b (\<lambda>v. v\<lparr>played := played v + 1\<rparr>) d;
             d = (if w = JNull then
                    (let d = mutate a (\<lambda>v. v\<lparr>draws := draws v + 1\<rparr>) d;
                         d = mutate b (\<lambda>v. v\<lparr>draws := draws v + 1\<rparr>) d;
                         d = mutate a (\<lambda>v. v\<lparr>points := points v + 1\<rparr>) d;
                         d = mutate b (\<lambda>v. v\<lparr>points := points v + 1\<rparr>) d
                     in d)
                  else if w = JStr a then
                    (let d = mutate a (\<lambda>v. v\<lparr>wins := wins v + 1\<rparr>) d;
                         d = mutate a (\<lambda>v. v\<lparr>points := points v + 3\<rparr>) d;
                         d = mutate b (\<lambda>v. v\<lparr>losses := losses v + 1\<rparr>) d
                     in d)
                  else
                    (let d = mutate b (\<lambda>v. v\<lparr>wins := wins v + 1\<rparr>) d;
                         d = mutate b (\<lambda>v. v\<lparr>points := points v + 3\<rparr>) d;
                         d = mutate a (\<lambda>v. v\<lparr>losses := losses v + 1\<rparr>) d
                     in d))
         in save_standings (s\<lparr>standings := d\<rparr>) now))"

text \<open>
  The operations that change the registry and the standings, and their execution from a
  state on, with the ids allocated on the way.
\<close>

datatype league_op =
    Register_referee string string string "string list option" int string
  | Register_player string string string "string list option" string
  | Update_standings string string json string

datatype allocation = Referee_id string | Player_id string

fun exec_op :: "league_state \<Rightarrow> league_op \<Rightarrow> league_state \<times> allocation list" where
  "exec_op s (Register_referee name ep ver gts cap tok) =
     (let (r, s') = register_referee s name ep ver gts cap tok in (s', [Referee_id (rr_referee_id r)]))"
| "exec_op s (Register_player name ep ver gts tok) =
     (let (p, s') = register_player s name ep ver gts tok in (s', [Player_id (rp_player_id p)]))"
| "exec_op s (Update_standings a b w now) = (update_standings_for_match s a b w now, [])"

fun exec_ops :: "league_state \<Rightarrow> league_op list \<Rightarrow> league_state \<times> allocation list" where
  "exec_ops s [] = (s, [])"
| "exec_ops s (x # xs) =
     (let (s1, ids1) = exec_op s x; (s2, ids2) = exec_ops s1 xs in (s2, ids1 @ ids2))"

fun allocated_players :: "allocation list \<Rightarrow> string list" where
  "allocated_players [] = []"
| "allocated_players (Player_id p # xs) = p # allocated_players xs"
| "allocated_players (Referee_id r # xs) = allocated_players xs"

fun allocated_referees :: "allocation list \<Rightarrow> string list" where
  "allocated_referees [] = []"
| "allocated_referees (Referee_id r # xs) = r # allocated_referees xs"
| "allocated_referees (Player_id p # xs) = allocated_referees xs"

text \<open>A field of a JSON object, as \<open>d.get(k)\<close> reads it.\<close>

definition json_field :: "json \<Rightarrow> string \<Rightarrow> json option" where
  "json_field j k = (case j of JObj fs \<Rightarrow> map_of fs k | _ \<Rightarrow> None)"

text \<open>
  Reading a row of the standings table back: a field that holds a number, a field that
  holds a string, and the standing that the row describes when all seven of its fields
  are there.
\<close>

definition num_field :: "json \<Rightarrow> string \<Rightarrow> int option" where
  "num_field j k = (case json_field j k of Some (JNum n) \<Rightarrow> Some n | _ \<Rightarrow> None)"

definition str_field :: "json \<Rightarrow> string \<Rightarrow> string option" where
  "str_field j k = (case json_field j k of Some (JStr t) \<Rightarrow> Some t | _ \<Rightarrow> None)"

definition row_standing :: "json \<Rightarrow> player_standing option" where
  "row_standing row =
     (case str_field row ''player_id'' of None \<Rightarrow> None | Some pid \<Rightarrow>
      case str_field row ''display_name'' of None \<Rightarrow> None | Some name \<Rightarrow>
      case num_field row ''played'' of None \<Rightarrow> None | Some p \<Rightarrow>
      case num_field row ''wins'' of None \<Rightarrow> None | Some w \<Rightarrow>
      case num_field row ''draws'' of None \<Rightarrow> None | Some d \<Rightarrow>
      case num_field row ''losses'' of None \<Rightarrow> None | Some l \<Rightarrow>
      case num_field row ''points'' of None \<Rightarrow> None | Some pts \<Rightarrow>
        Some \<lparr>ps_player_id = pid, ps_display_name = name, played = p, wins = w,
               draws = d, losses = l, points = pts\<rparr>)"

text \<open>A small league used as an example below: two players, a referee, a draw and a win.\<close>

definition league_example :: "league_op list" where
  "league_example =
     [Register_player ''Ann'' ''http://localhost:8101/mcp'' ''1.0.0'' None ''tok-a'',
      Register_player ''Bob'' ''http://localhost:8102/mcp'' ''1.0.0'' None ''tok-b'',
      Register_referee ''Ref'' ''http://localhost:8001/mcp'' ''1.0.0'' None 2 ''tok-r'',
      Update_standings ''P01'' ''P02'' JNull ''2025-01-01T00:00:00Z'',
      Update_standings ''P01'' ''P02'' (JStr ''P02'') ''2025-01-01T00:01:00Z'']"

section \<open>Handlers: dictionaries, truth values and effects\<close>

type_synonym dict = "(string \<times> json) list"

text \<open>\<open>d.get(k)\<close> and \<open>d.get(k, default)\<close>.\<close>

definition dict_get :: "dict \<Rightarrow> string \<Rightarrow> json" where
  "dict_get d k = (case map_of d k of None \<Rightarrow> JNull | Some v \<Rightarrow> v)"

definition dict_get_default :: "dict \<Rightarrow> string \<Rightarrow> json \<Rightarrow> json" where
  "dict_get_default d k dflt = (case map_of d k of None \<Rightarrow> dflt | Some v \<Rightarrow> v)"

text \<open>The truth value Python gives a JSON value in a condition.\<close>

fun truthy :: "json \<Rightarrow> bool" where
  "truthy JNull = False"
| "truthy (JBool b) = b"
| "truthy (JNum n) = (n \<noteq> 0)"
| "truthy (JStr s) = (s \<noteq> [])"
| "truthy (JArr xs) = (xs \<noteq> [])"
| "truthy (JObj fs) = (fs \<noteq> [])"

text \<open>
  What a handler does to the outside world: a call of the logger with its level, event
  type and details; the start of a \<open>client.call\<close> (the retrying call of the transport
  client) and of a \<open>client.call_no_retry\<close>, each with endpoint, method, parameters and
  timeout; and what the transport client does inside such a call: a \<open>requests.post\<close> to an
  endpoint, with the method and the id of the request it carries and the number of the
  attempt, and a \<open>time.sleep\<close>.
\<close>

datatype effect =
    Logged string string dict
  | Called string string dict int
  | Called_no_retry string string dict int
  | Posted string string int nat
  | Slept real

section \<open>League Manager handlers (agents/league_manager/handlers.py)\<close>

text \<open>
  The loop over the schedule in \<open>handle_report_match_result\<close>, at position \<open>i\<close> of the
  schedule with the matches \<open>ms\<close> still to visit. The first match with the reported id is
  changed in place, the standings are updated, the match document is saved, and the loop
  ends. \<open>t_standings\<close> and \<open>t_match\<close> are the readings of \<open>utc_timestamp()\<close>.
\<close>

fun report_loop ::
  "league_state \<Rightarrow> match list \<Rightarrow> nat \<Rightarrow> json \<Rightarrow> json \<Rightarrow> dict \<Rightarrow> string \<Rightarrow> string
     \<Rightarrow> league_state" where
  "report_loop s [] i mid rnd res t_standings t_match = s"
| "report_loop s (m # ms) i mid rnd res t_standings t_match =
     (if JStr (match_id m) = mid then
        (let s1 = s\<lparr>schedule := (schedule s)
                    [i := m\<lparr>status := ''COMPLETED'', winner := dict_get res ''winner'',
                             result := JObj res\<rparr>]\<rparr>;
             s2 = update_standings_for_match s1 (player_a_id m) (player_b_id m)
                    (dict_get res ''winner'') t_standings;
             s3 = save_match_result s2 (match_id m)
                    (JObj [(''match_id'', mid),
                           (''round_id'', rnd),
                           (''player_a_id'', JStr (player_a_id m)),
                           (''player_b_id'', JStr (player_b_id m)),
                           (''result'', JObj res),
                           (''timestamp'', JStr t_match)])
         in s3)
      else report_loop s ms (Suc i) mid rnd res t_standings t_match)"

definition match_result_ack :: "dict \<Rightarrow> json \<Rightarrow> int \<Rightarrow> string \<Rightarrow> json" where
  "match_result_ack params mid req_id t_ack =
     JObj [(''jsonrpc'', JStr ''2.0''),
           (''result'', JObj [(''protocol'', JStr ''league.v2''),
                             (''message_type'', JStr ''MATCH_RESULT_ACK''),
                             (''sender'', JStr ''league_manager''),
                             (''timestamp'', JStr t_ack),
                             (''conversation_id'',
                                dict_get_default params ''conversation_id'' (JStr '''')),
                             (''match_id'', mid),
                             (''status'', JStr ''RECORDED'')]),
           (''id'', JNum req_id)]"

text \<open>
  \<open>handle_report_match_result\<close>. The result is the returned dictionary, or the exception
  that leaves the handler: \<open>result.get\<close> raises \<open>AttributeError\<close> when the \<open>result\<close> of the
  report is not an object, before anything is logged or changed.
\<close>

definition handle_report_match_result ::
  "league_state \<Rightarrow> dict \<Rightarrow> int \<Rightarrow> string \<Rightarrow> string \<Rightarrow> string
     \<Rightarrow> (string + json) \<times> league_state \<times> effect list" where
  "handle_report_match_result s params req_id t_standings t_match t_ack =
     (let mid = dict_get params ''match_id'';
          res = dict_get_default params ''result'' (JObj []);
          rnd = dict_get params ''round_id''
      in case res of
           JObj rfields \<Rightarrow>
             (Inr (match_result_ack params mid req_id t_ack),
              report_loop s (schedule s) 0 mid rnd rfields t_standings t_match,
              [Logged ''INFO'' ''MATCH_RESULT_RECEIVED''
                 [(''match_id'', mid), (''winner'', dict_get rfields ''winner'')]])
         | _ \<Rightarrow> (Inl ''AttributeError'', s, []))"

text \<open>
  A league with a schedule, and a report for a match that is not scheduled, used as an
  example below.
\<close>

definition scheduled_league :: league_state where
  "scheduled_league =
     (fst (exec_ops (LeagueState ''L'') league_example))
       \<lparr>schedule := create_round_robin_schedule [''P01'', ''P02'']\<rparr>"

definition unknown_match_report :: dict where
  "unknown_match_report =
     [(''match_id'', JStr ''R9M9''), (''round_id'', JNum 9),
      (''conversation_id'', JStr ''conv-R9M9-report''),
      (''result'', JObj [(''winner'', JStr ''P01'')])]"

section \<open>Referee state (agents/referee/state.py)\<close>

datatype match_state = WAITING_FOR_PLAYERS | COLLECTING_CHOICES | FINISHED | ERROR

text \<open>
  \<open>ActiveMatch\<close>. The choices hold the JSON value a player answered (\<open>JNull\<close> is \<open>None\<close>).
\<close>

record active_match =
  am_match_id :: string
  am_round_id :: int
  am_player_a_id :: string
  am_player_b_id :: string
  am_player_a_endpoint :: string
  am_player_b_endpoint :: string
  am_state :: match_state
  player_a_joined :: bool
  player_b_joined :: bool
  player_a_choice :: json
  player_b_choice :: json
  drawn_number :: "int option"
  am_winner :: "string option"
  conversation_id :: string

record referee_state =
  rs_referee_id :: "string option"
  rs_auth_token :: "string option"
  rs_league_id :: "string option"
  league_endpoint :: string
  rs_display_name :: string
  rs_version :: string
  rs_game_types :: "string list"
  rs_max_concurrent_matches :: int
  active_matches :: "(string \<times> active_match) list"

definition RefereeState :: referee_state where
  "RefereeState = \<lparr>rs_referee_id = None, rs_auth_token = None, rs_league_id = None,
     league_endpoint = ''http://localhost:8000/mcp'', rs_display_name = ''Referee'',
     rs_version = ''1.0.0'', rs_game_types = [''even_odd''], rs_max_concurrent_matches = 2,
     active_matches = []\<rparr>"

definition create_match ::
  "referee_state \<Rightarrow> string \<Rightarrow> int \<Rightarrow> string \<Rightarrow> string \<Rightarrow> string \<Rightarrow> string \<Rightarrow> string
     \<Rightarrow> active_match \<times> referee_state" where
  "create_match st mid rnd a b ea eb conv =
     (let m = \<lparr>am_match_id = mid, am_round_id = rnd, am_player_a_id = a, am_player_b_id = b,
                am_player_a_endpoint = ea, am_player_b_endpoint = eb,
                am_state = WAITING_FOR_PLAYERS, player_a_joined = False,
                player_b_joined = False, player_a_choice = JNull, player_b_choice = JNull,
                drawn_number = None, am_winner = None, conversation_id = conv\<rparr>
      in (m, st\<lparr>active_matches := dict_set mid m (active_matches st)\<rparr>))"

definition get_match :: "referee_state \<Rightarrow> string \<Rightarrow> active_match option" where
  "get_match st mid = map_of (active_matches st) mid"

definition complete_match :: "referee_state \<Rightarrow> string \<Rightarrow> referee_state" where
  "complete_match st mid =
     st\<lparr>active_matches := filter (\<lambda>(k, m). k \<noteq> mid) (active_matches st)\<rparr>"

text \<open>Assignments to attributes of the match object that the dictionary holds under \<open>mid\<close>.\<close>

definition set_in_match :: "referee_state \<Rightarrow> string \<Rightarrow> (active_match \<Rightarrow> active_match) \<Rightarrow> referee_state" where
  "set_in_match st mid f = st\<lparr>active_matches := mutate mid f (active_matches st)\<rparr>"

definition player_joined :: "referee_state \<Rightarrow> string \<Rightarrow> string \<Rightarrow> bool \<times> referee_state" where
  "player_joined st mid pid =
     (case get_match st mid of
        None \<Rightarrow> (False, st)
      | Some m \<Rightarrow>
          if pid = am_player_a_id m \<or> pid = am_player_b_id m then
            (let st1 = (if pid = am_player_a_id m
                        then set_in_match st mid (\<lambda>m. m\<lparr>player_a_joined := True\<rparr>)
                        else set_in_match st mid (\<lambda>m. m\<lparr>player_b_joined := True\<rparr>));
                 st2 = set_in_match st1 mid
                         (\<lambda>m. if player_a_joined m \<and> player_b_joined m
                              then m\<lparr>am_state := COLLECTING_CHOICES\<rparr> else m)
             in (True, st2))
          else (False, st))"

definition record_choice :: "referee_state \<Rightarrow> string \<Rightarrow> string \<Rightarrow> json \<Rightarrow> bool \<times> referee_state" where
  "record_choice st mid pid choice =
     (case get_match st mid of
        None \<Rightarrow> (False, st)
      | Some m \<Rightarrow>
          if pid = am_player_a_id m
          then (True, set_in_match st mid (\<lambda>m. m\<lparr>player_a_choice := choice\<rparr>))
          else if pid = am_player_b_id m
          then (True, set_in_match st mid (\<lambda>m. m\<lparr>player_b_choice := choice\<rparr>))
          else (False, st))"

section \<open>Referee handlers (agents/referee/handlers.py)\<close>

text \<open>
  \<open>RefereeHandlers\<close> holds the referee state and a transport client of its own, made with
  the default retry configuration (the logger is the \<open>Logged\<close> effects).
\<close>

record referee_handlers =
  rh_state :: referee_state
  rh_client :: mcp_client

definition RefereeHandlers :: "referee_state \<Rightarrow> referee_handlers" where
  "RefereeHandlers st = \<lparr>rh_state = st, rh_client = MCPClient None\<rparr>"

text \<open>
  A step of a handler takes the handlers object and gives a value or the exception that
  ends the handler, the object as the step leaves it, and the effects on the outside
  world in order. \<open>then_do\<close> runs a step after another, as one statement follows another.
\<close>

type_synonym 'a action = "referee_handlers \<Rightarrow> (string + 'a) \<times> referee_handlers \<times> effect list"

definition then_do :: "'a action \<Rightarrow> ('a \<Rightarrow> 'b action) \<Rightarrow> 'b action" where
  "then_do step rest h =
     (case step h of
        (Inl e, h1, effs) \<Rightarrow> (Inl e, h1, effs)
      | (Inr x, h1, effs) \<Rightarrow>
          (case rest x h1 of (y, h2, effs2) \<Rightarrow> (y, h2, effs @ effs2)))"

definition return :: "'a \<Rightarrow> 'a action" where
  "return x h = (Inr x, h, [])"

definition raise :: "string \<Rightarrow> 'a action" where
  "raise e h = (Inl e, h, [])"

definition log :: "string \<Rightarrow> string \<Rightarrow> dict \<Rightarrow> unit action" where
  "log level event_type details h = (Inr (), h, [Logged level event_type details])"

definition modify :: "(referee_state \<Rightarrow> referee_state) \<Rightarrow> unit action" where
  "modify f h = (Inr (), h\<lparr>rh_state := f (rh_state h)\<rparr>, [])"

text \<open>
  \<open>self.client.call(endpoint, method, params, timeout)\<close>: the transport client's \<open>call\<close>
  runs, with its retry loop, against what the network does at each attempt of this call
  (\<open>net\<close>); the client keeps its new request id, and every post and sleep of the loop is
  an effect of the handler. The call gives the decoded response or the exception that
  leaves the client. \<open>self.client.call_no_retry\<close> likewise, with its single post.
\<close>

definition post_effect :: "string \<Rightarrow> string \<Rightarrow> int \<Rightarrow> client_event \<Rightarrow> effect" where
  "post_effect endpoint method rid event =
     (case event of Post attempt \<Rightarrow> Posted endpoint method rid attempt | Sleep delay \<Rightarrow> Slept delay)"

definition client_call ::
  "string \<Rightarrow> string \<Rightarrow> dict \<Rightarrow> int \<Rightarrow> (nat \<Rightarrow> post_outcome) \<Rightarrow> json action" where
  "client_call endpoint method params timeout net h =
     (case call (rh_client h) net of
        ((response, events), client') \<Rightarrow>
          (response, h\<lparr>rh_client := client'\<rparr>,
           Called endpoint method params timeout
           # map (post_effect endpoint method (request_id client')) events))"

definition client_call_no_retry ::
  "string \<Rightarrow> string \<Rightarrow> dict \<Rightarrow> int \<Rightarrow> post_outcome \<Rightarrow> json action" where
  "client_call_no_retry endpoint method params timeout outcome h =
     (case call_no_retry (rh_client h) outcome of
        ((response, events), client') \<Rightarrow>
          (response, h\<lparr>rh_client := client'\<rparr>,
           Called_no_retry endpoint method params timeout
           # map (post_effect endpoint method (request_id client')) events))"

text \<open>\<open>str\<close> and the JSON encoding of an optional string.\<close>

definition str_opt :: "string option \<Rightarrow> string" where
  "str_opt x = (case x of None \<Rightarrow> ''None'' | Some s \<Rightarrow> s)"

definition json_opt :: "string option \<Rightarrow> json" where
  "json_opt x = (case x of None \<Rightarrow> JNull | Some s \<Rightarrow> JStr s)"

text \<open>
  What the world outside gives one \<open>run_match\<close>: what the network does at each attempt of
  each \<open>client.call\<close> and at the one post of each \<open>client.call_no_retry\<close>, the number
  \<open>draw_number()\<close> draws, the eight hexadecimal digits taken from \<open>uuid.uuid4()\<close>, and the
  readings of \<open>utc_timestamp()\<close>, one per place that reads the clock.
\<close>

record world =
  invite_a_net :: "nat \<Rightarrow> post_outcome"
  invite_b_net :: "nat \<Rightarrow> post_outcome"
  choice_a_net :: "nat \<Rightarrow> post_outcome"
  choice_b_net :: "nat \<Rightarrow> post_outcome"
  game_over_a_post :: post_outcome
  game_over_b_post :: post_outcome
  report_net :: "nat \<Rightarrow> post_outcome"
  drawn :: int
  uuid_hex :: string
  clock :: "nat \<Rightarrow> string"

text \<open>The parameters of a game invitation (\<open>params\<close> in \<open>_send_game_invitation\<close>).\<close>

definition invitation_params ::
  "referee_state \<Rightarrow> string \<Rightarrow> int \<Rightarrow> string \<Rightarrow> string \<Rightarrow> string \<Rightarrow> string \<Rightarrow> dict" where
  "invitation_params st mid rnd opponent_id role conv ts =
     [(''protocol'', JStr ''league.v2''),
      (''message_type'', JStr ''GAME_INVITATION''),
      (''sender'', JStr (''referee:'' @ str_opt (rs_referee_id st))),
      (''timestamp'', JStr ts),
      (''conversation_id'', JStr conv),
      (''auth_token'', json_opt (rs_auth_token st)),
      (''league_id'', json_opt (rs_league_id st)),
      (''round_id'', JNum rnd),
      (''match_id'', JStr mid),
      (''game_type'', JStr ''even_odd''),
      (''role_in_match'', JStr role),
      (''opponent_id'', JStr opponent_id)]"

definition send_game_invitation ::
  "string \<Rightarrow> string \<Rightarrow> int \<Rightarrow> string \<Rightarrow> string \<Rightarrow> string \<Rightarrow> string \<Rightarrow> string
     \<Rightarrow> (nat \<Rightarrow> post_outcome) \<Rightarrow> json action" where
  "send_game_invitation endpoint mid rnd player_id opponent_id role conv ts net h =
     then_do
       (log ''INFO'' ''MCP_SENT''
          [(''message_type'', JStr ''GAME_INVITATION''), (''endpoint'', JStr endpoint),
           (''player_id'', JStr player_id)])
       (\<lambda>_. client_call endpoint ''handle_game_invitation''
          (invitation_params (rh_state h) mid rnd opponent_id role conv ts) 5 net)
       h"

text \<open>
  \<open>"error" in response\<close> and the first use of the response after it, for a response that
  is not a dictionary (the client hands back whatever JSON value the body decodes to).
  The test raises \<open>TypeError\<close> for \<open>null\<close>, a truth value and a number; for a list or a
  string it is a membership or substring test, after which \<open>response["error"]\<close> raises
  \<open>TypeError\<close> or \<open>response.get\<close> raises \<open>AttributeError\<close>.
\<close>

fun str_contains :: "string \<Rightarrow> string \<Rightarrow> bool" where
  "str_contains sub [] = (sub = [])"
| "str_contains sub (c # cs) = (take (length sub) (c # cs) = sub \<or> str_contains sub cs)"

definition non_dict_response :: "json \<Rightarrow> string" where
  "non_dict_response response =
     (case response of
        JArr xs \<Rightarrow> if JStr ''error'' \<in> set xs then ''TypeError'' else ''AttributeError''
      | JStr t \<Rightarrow> if str_contains ''error'' t then ''TypeError'' else ''AttributeError''
      | _ \<Rightarrow> ''TypeError'')"

text \<open>
  \<open>_check_join_ack\<close>. \<open>result.get\<close> raises \<open>AttributeError\<close> when the result of the
  response is not an object.
\<close>

definition check_join_ack :: "json \<Rightarrow> string \<Rightarrow> string \<Rightarrow> bool action" where
  "check_join_ack response player_id mid =
     (case response of
        JObj fs \<Rightarrow>
          (case map_of fs ''error'' of
             Some err \<Rightarrow>
               then_do
                 (log ''WARNING'' ''JOIN_FAILED'' [(''player_id'', JStr player_id), (''error'', err)])
                 (\<lambda>_. return False)
           | None \<Rightarrow>
               (case dict_get_default fs ''result'' (JObj []) of
                  JObj res \<Rightarrow>
                    if truthy (dict_get res ''accept'') \<and> dict_get res ''match_id'' = JStr mid
                    then then_do (modify (\<lambda>st. snd (player_joined st mid player_id)))
                           (\<lambda>_. return True)
                    else return False
                | _ \<Rightarrow> raise ''AttributeError''))
      | _ \<Rightarrow> raise (non_dict_response response))"

definition request_parity_choice ::
  "string \<Rightarrow> string \<Rightarrow> string \<Rightarrow> string \<Rightarrow> int \<Rightarrow> string \<Rightarrow> string \<Rightarrow> string
     \<Rightarrow> (nat \<Rightarrow> post_outcome) \<Rightarrow> json action" where
  "request_parity_choice endpoint mid player_id opponent_id rnd conv ts deadline net h =
     then_do
       (log ''INFO'' ''MCP_SENT''
          [(''message_type'', JStr ''CHOOSE_PARITY_CALL''), (''endpoint'', JStr endpoint),
           (''player_id'', JStr player_id)])
       (\<lambda>_. then_do
          (client_call endpoint ''choose_parity''
             [(''protocol'', JStr ''league.v2''),
              (''message_type'', JStr ''CHOOSE_PARITY_CALL''),
              (''sender'', JStr (''referee:'' @ str_opt (rs_referee_id (rh_state h)))),
              (''timestamp'', JStr ts),
              (''conversation_id'', JStr conv),
              (''auth_token'', json_opt (rs_auth_token (rh_state h))),
              (''match_id'', JStr mid),
              (''player_id'', JStr player_id),
              (''game_type'', JStr ''even_odd''),
              (''context'', JObj [(''opponent_id'', JStr opponent_id),
                                 (''round_id'', JNum rnd),
                                 (''your_standings'',
                                    JObj [(''wins'', JNum 0), (''losses'', JNum 0),
                                          (''draws'', JNum 0)])]),
              (''deadline'', JStr deadline)]
             30 net)
          (\<lambda>response.
             case response of
               JObj fs \<Rightarrow>
                 (case map_of fs ''error'' of
                    Some err \<Rightarrow>
                      then_do
                        (log ''WARNING'' ''CHOICE_FAILED''
                           [(''player_id'', JStr player_id), (''error'', err)])
                        (\<lambda>_. return JNull)
                  | None \<Rightarrow>
                      (case dict_get_default fs ''result'' (JObj []) of
                         JObj res \<Rightarrow>
                           (let choice = dict_get res ''parity_choice''
                            in if truthy choice
                               then then_do
                                      (modify (\<lambda>st. snd (record_choice st mid player_id choice)))
                                      (\<lambda>_. return choice)
                               else return choice)
                       | _ \<Rightarrow> raise ''AttributeError''))
             | _ \<Rightarrow> raise (non_dict_response response)))
       h"

definition send_game_over ::
  "string \<Rightarrow> string \<Rightarrow> dict \<Rightarrow> string \<Rightarrow> string \<Rightarrow> post_outcome \<Rightarrow> unit action" where
  "send_game_over endpoint mid game_result conv ts outcome h =
     then_do
       (log ''INFO'' ''MCP_SENT''
          [(''message_type'', JStr ''GAME_OVER''), (''endpoint'', JStr endpoint)])
       (\<lambda>_. then_do
          (client_call_no_retry endpoint ''notify_match_result''
             [(''protocol'', JStr ''league.v2''),
              (''message_type'', JStr ''GAME_OVER''),
              (''sender'', JStr (''referee:'' @ str_opt (rs_referee_id (rh_state h)))),
              (''timestamp'', JStr ts),
              (''conversation_id'', JStr conv),
              (''auth_token'', json_opt (rs_auth_token (rh_state h))),
              (''match_id'', JStr mid),
              (''game_type'', JStr ''even_odd''),
              (''game_result'', JObj game_result)]
             5 outcome)
          (\<lambda>_. return ()))
       h"

definition score_json :: "(string \<times> int) list \<Rightarrow> json" where
  "score_json scores = JObj (map (\<lambda>(k, v). (k, JNum v)) scores)"

text \<open>The parameters of a match result report (\<open>params\<close> in \<open>_report_match_result\<close>).\<close>

definition report_params ::
  "referee_state \<Rightarrow> string \<Rightarrow> int \<Rightarrow> json \<Rightarrow> (string \<times> int) list \<Rightarrow> dict \<Rightarrow> string \<Rightarrow> dict" where
  "report_params st mid rnd winner_id scores game_result ts =
     [(''protocol'', JStr ''league.v2''),
      (''message_type'', JStr ''MATCH_RESULT_REPORT''),
      (''sender'', JStr (''referee:'' @ str_opt (rs_referee_id st))),
      (''timestamp'', JStr ts),
      (''conversation_id'', JStr (''conv-'' @ mid @ ''-report'')),
      (''auth_token'', json_opt (rs_auth_token st)),
      (''league_id'', json_opt (rs_league_id st)),
      (''round_id'', JNum rnd),
      (''match_id'', JStr mid),
      (''game_type'', JStr ''even_odd''),
      (''result'', JObj [(''winner'', winner_id),
                        (''score'', score_json scores),
                        (''details'',
                           JObj [(''drawn_number'', dict_get game_result ''drawn_number''),
                                 (''choices'', dict_get game_result ''choices'')])])]"

definition report_match_result ::
  "string \<Rightarrow> int \<Rightarrow> json \<Rightarrow> (string \<times> int) list \<Rightarrow> dict \<Rightarrow> string \<Rightarrow> (nat \<Rightarrow> post_outcome)
     \<Rightarrow> unit action" where
  "report_match_result mid rnd winner_id scores game_result ts net h =
     then_do
       (log ''INFO'' ''MCP_SENT''
          [(''message_type'', JStr ''MATCH_RESULT_REPORT''),
           (''endpoint'', JStr (league_endpoint (rh_state h)))])
       (\<lambda>_. then_do
          (client_call (league_endpoint (rh_state h)) ''report_match_result''
             (report_params (rh_state h) mid rnd winner_id scores game_result ts) 10 net)
          (\<lambda>_. return ()))
       h"

text \<open>
  \<open>_handle_technical_loss\<close>, for the match object \<open>m\<close> that the state holds under its
  match id.
\<close>

definition technical_loss_result :: "string \<Rightarrow> string \<Rightarrow> dict" where
  "technical_loss_result winner_id reason =
     [(''status'', JStr ''TECHNICAL_LOSS''),
      (''winner_player_id'', JStr winner_id),
      (''drawn_number'', JNum 0),
      (''number_parity'', JStr ''N/A''),
      (''choices'', JObj []),
      (''reason'', JStr reason)]"

definition handle_technical_loss ::
  "active_match \<Rightarrow> string \<Rightarrow> string \<Rightarrow> string \<Rightarrow> (nat \<Rightarrow> post_outcome) \<Rightarrow> json action" where
  "handle_technical_loss m winner_id reason ts net =
     then_do
       (log ''WARNING'' ''TECHNICAL_LOSS''
          [(''match_id'', JStr (am_match_id m)), (''winner'', JStr winner_id),
           (''reason'', JStr reason)])
       (\<lambda>_. then_do
          (modify (\<lambda>st. set_in_match st (am_match_id m)
                            (\<lambda>m. m\<lparr>am_winner := Some winner_id, am_state := FINISHED\<rparr>)))
          (\<lambda>_. let game_result = technical_loss_result winner_id reason;
                   scores = dict_set winner_id 3
                              (dict_set (am_player_b_id m) 0 (dict_set (am_player_a_id m) 0 []))
               in then_do
                    (report_match_result (am_match_id m) (am_round_id m) (JStr winner_id)
                       scores game_result ts net)
                    (\<lambda>_. then_do
                       (modify (\<lambda>st. complete_match st (am_match_id m)))
                       (\<lambda>_. return (JObj [(''match_id'', JStr (am_match_id m)),
                                          (''winner'', JStr winner_id),
                                          (''result'', JObj game_result)])))))"

text \<open>\<open>self.state.create_match(...)\<close> as a step: it gives the new match object.\<close>

definition state_create_match ::
  "string \<Rightarrow> int \<Rightarrow> string \<Rightarrow> string \<Rightarrow> string \<Rightarrow> string \<Rightarrow> string \<Rightarrow> active_match action" where
  "state_create_match mid rnd a b ea eb conv h =
     (case create_match (rh_state h) mid rnd a b ea eb conv of
        (m, st1) \<Rightarrow> (Inr m, h\<lparr>rh_state := st1\<rparr>, []))"

text \<open>
  \<open>not choice or not validate_parity_choice(choice)\<close>: \<open>choice.lower()\<close> raises
  \<open>AttributeError\<close> for a true value that is not a string.
\<close>

definition invalid_choice :: "json \<Rightarrow> bool action" where
  "invalid_choice choice =
     (if \<not> truthy choice then return True
      else case choice of
             JStr c \<Rightarrow> return (\<not> validate_parity_choice c)
           | _ \<Rightarrow> raise ''AttributeError'')"

definition str_of :: "json \<Rightarrow> string" where
  "str_of j = (case j of JStr s \<Rightarrow> s | _ \<Rightarrow> [])"

text \<open>
  \<open>run_match\<close> from step 3 on: the two choices are valid strings, the number is drawn and
  the match is resolved, announced and reported.
\<close>

definition resolve_match :: "world \<Rightarrow> active_match \<Rightarrow> string \<Rightarrow> string \<Rightarrow> json action" where
  "resolve_match w m choice_a choice_b =
     (let number = drawn w;
          mid = am_match_id m; a = am_player_a_id m; b = am_player_b_id m;
          conv = conversation_id m
      in case determine_winner choice_a choice_b number of
           (winner_role, parity, reason) \<Rightarrow>
        (let winner_id = (if winner_role = Some ''PLAYER_A'' then Some a
                          else if winner_role = Some ''PLAYER_B'' then Some b else None);
             game_status = (if winner_role = Some ''PLAYER_A'' \<or> winner_role = Some ''PLAYER_B''
                            then ''WIN'' else ''DRAW'');
             game_result =
               [(''status'', JStr game_status),
                (''winner_player_id'', json_opt winner_id),
                (''drawn_number'', JNum number),
                (''number_parity'', JStr parity),
                (''choices'', JObj (dict_set b (JStr choice_b) (dict_set a (JStr choice_a) []))),
                (''reason'', JStr reason)]
         in then_do
              (modify (\<lambda>st. set_in_match st mid
                 (\<lambda>m. m\<lparr>drawn_number := Some number, am_winner := winner_id,
                         am_state := FINISHED\<rparr>)))
           (\<lambda>_. then_do
              (log ''INFO'' ''MATCH_RESULT''
                 [(''match_id'', JStr mid), (''number'', JNum number),
                  (''parity'', JStr parity), (''winner'', json_opt winner_id)])
           (\<lambda>_. then_do
              (send_game_over (am_player_a_endpoint m) mid game_result conv (clock w 6)
                 (game_over_a_post w))
           (\<lambda>_. then_do
              (send_game_over (am_player_b_endpoint m) mid game_result conv (clock w 7)
                 (game_over_b_post w))
           (\<lambda>_. then_do
              (report_match_result mid (am_round_id m) (json_opt winner_id)
                 (calculate_score winner_role a b) game_result (clock w 8) (report_net w))
           (\<lambda>_. then_do
              (modify (\<lambda>st. complete_match st mid))
           (\<lambda>_. return (JObj [(''match_id'', JStr mid),
                              (''winner'', json_opt winner_id),
                              (''result'', JObj game_result)])))))))))"

text \<open>\<open>run_match\<close> from step 2 on: both players have joined.\<close>

definition collect_choices :: "world \<Rightarrow> active_match \<Rightarrow> json action" where
  "collect_choices w m =
     (let mid = am_match_id m; a = am_player_a_id m; b = am_player_b_id m;
          conv = conversation_id m
      in then_do
           (request_parity_choice (am_player_a_endpoint m) mid a b (am_round_id m) conv
              (clock w 2) (clock w 3) (choice_a_net w))
        (\<lambda>choice_a. then_do
           (request_parity_choice (am_player_b_endpoint m) mid b a (am_round_id m) conv
              (clock w 4) (clock w 5) (choice_b_net w))
        (\<lambda>choice_b. then_do (invalid_choice choice_a)
        (\<lambda>bad_a.
           if bad_a
           then handle_technical_loss m b ''Player A invalid choice'' (clock w 8) (report_net w)
           else then_do (invalid_choice choice_b)
        (\<lambda>bad_b.
           if bad_b
           then handle_technical_loss m a ''Player B invalid choice'' (clock w 8) (report_net w)
           else resolve_match w m (str_of choice_a) (str_of choice_b))))))"

definition run_match ::
  "world \<Rightarrow> string \<Rightarrow> int \<Rightarrow> string \<Rightarrow> string \<Rightarrow> string \<Rightarrow> string \<Rightarrow> json action" where
  "run_match w mid rnd a b ea eb =
     (let conv = ''conv-'' @ mid @ ''-'' @ uuid_hex w
      in then_do
           (state_create_match mid rnd a b ea eb conv)
        (\<lambda>m. then_do
           (log ''INFO'' ''MATCH_START''
              [(''match_id'', JStr mid), (''player_a'', JStr a), (''player_b'', JStr b)])
        (\<lambda>_. then_do
           (send_game_invitation ea mid rnd a b ''PLAYER_A'' conv (clock w 0)
              (invite_a_net w))
        (\<lambda>invite_a. then_do
           (send_game_invitation eb mid rnd b a ''PLAYER_B'' conv (clock w 1)
              (invite_b_net w))
        (\<lambda>invite_b. then_do (check_join_ack invite_a a mid)
        (\<lambda>joined_a.
           if \<not> joined_a
           then handle_technical_loss m b ''Player A failed to join'' (clock w 8) (report_net w)
           else then_do (check_join_ack invite_b b mid)
        (\<lambda>joined_b.
           if \<not> joined_b
           then handle_technical_loss m a ''Player B failed to join'' (clock w 8) (report_net w)
           else collect_choices w m)))))))"

text \<open>
  What a run did to the network. \<open>calls_to\<close>: the calls of a method with the retrying
  client, as pairs of endpoint and parameters, in order. \<open>http_traffic\<close>: the posts and
  sleeps of the transport client, in order. \<open>reported_results\<close>: the \<open>result\<close> objects of
  the reports sent to the League Manager, and \<open>reported_status\<close>: their \<open>status\<close> fields.
  \<open>returned_status\<close>: the \<open>status\<close> of the result in the value a run returns.
\<close>

fun calls_to :: "string \<Rightarrow> effect list \<Rightarrow> (string \<times> dict) list" where
  "calls_to method [] = []"
| "calls_to method (Called endpoint m params timeout # effs) =
     (if m = method then (endpoint, params) # calls_to method effs else calls_to method effs)"
| "calls_to method (eff # effs) = calls_to method effs"

fun http_traffic :: "effect list \<Rightarrow> effect list" where
  "http_traffic [] = []"
| "http_traffic (Posted endpoint m rid attempt # effs) =
     Posted endpoint m rid attempt # http_traffic effs"
| "http_traffic (Slept delay # effs) = Slept delay # http_traffic effs"
| "http_traffic (eff # effs) = http_traffic effs"

definition reported_results :: "effect list \<Rightarrow> json list" where
  "reported_results effs =
     map (\<lambda>(endpoint, params). dict_get params ''result'') (calls_to ''report_match_result'' effs)"

definition reported_status :: "effect list \<Rightarrow> json option list" where
  "reported_status effs = map (\<lambda>res. json_field res ''status'') (reported_results effs)"

definition returned_status :: "string + json \<Rightarrow> json option" where
  "returned_status ret =
     (case ret of
        Inl e \<Rightarrow> None
      | Inr v \<Rightarrow> (case json_field v ''result'' of
                   None \<Rightarrow> None
                 | Some res \<Rightarrow> json_field res ''status''))"

text \<open>
  The answers to an invitation, as the transport client hands them to the referee.
  \<open>join_failure\<close>: the response is an error response (of the transport client after a
  transport error, or of the player), or its result is an object that does not carry a
  true \<open>accept\<close> or names another match. \<open>join_accepted\<close>: the result carries a true
  \<open>accept\<close> and the id of the match. A response that is not an object, or whose result is
  not an object, is neither: \<open>_check_join_ack\<close> raises on it.
\<close>

definition join_failure :: "json \<Rightarrow> string \<Rightarrow> bool" where
  "join_failure response mid =
     (case response of
        JObj fs \<Rightarrow>
          (case map_of fs ''error'' of
             Some err \<Rightarrow> True
           | None \<Rightarrow>
               (case dict_get_default fs ''result'' (JObj []) of
                  JObj res \<Rightarrow> \<not> truthy (dict_get res ''accept'') \<or> dict_get res ''match_id'' \<noteq> JStr mid
                | _ \<Rightarrow> False))
      | _ \<Rightarrow> False)"

definition join_accepted :: "json \<Rightarrow> string \<Rightarrow> bool" where
  "join_accepted response mid =
     (case response of
        JObj fs \<Rightarrow>
          (case map_of fs ''error'' of
             Some err \<Rightarrow> False
           | None \<Rightarrow>
               (case dict_get_default fs ''result'' (JObj []) of
                  JObj res \<Rightarrow> truthy (dict_get res ''accept'') \<and> dict_get res ''match_id'' = JStr mid
                | _ \<Rightarrow> False))
      | _ \<Rightarrow> False)"

text \<open>
  Networks and worlds used as examples. A player that accepts the invitation to a match
  at the first attempt, and a League Manager that acknowledges a report. In the first
  world every post of the invitation to player A times out and player B accepts; in the
  second player A accepts and player B answers for another match; in the third player A
  accepts and every post of the invitation to player B times out; in the fourth player A
  answers with \<open>"result": null\<close>.
\<close>

definition accept_response :: "string \<Rightarrow> json" where
  "accept_response mid =
     JObj [(''jsonrpc'', JStr ''2.0''),
           (''result'', JObj [(''message_type'', JStr ''GAME_JOIN_ACK''),
                             (''match_id'', JStr mid), (''accept'', JBool True)]),
           (''id'', JNum 1)]"

definition answers :: "json \<Rightarrow> nat \<Rightarrow> post_outcome" where
  "answers body attempt = Response 200 [] (Some body)"

definition report_ack :: json where
  "report_ack = JObj [(''jsonrpc'', JStr ''2.0''),
                      (''result'', JObj [(''status'', JStr ''RECORDED'')]),
                      (''id'', JNum 1)]"

definition world_a_silent :: world where
  "world_a_silent =
     \<lparr>invite_a_net = always_times_out,
      invite_b_net = answers (accept_response ''R1M1''),
      choice_a_net = always_times_out,
      choice_b_net = always_times_out,
      game_over_a_post = Timeout ''Read timed out.'',
      game_over_b_post = Timeout ''Read timed out.'',
      report_net = answers report_ack,
      drawn = 4, uuid_hex = ''0a1b2c3d'', clock = (\<lambda>k. ''2025-01-01T00:00:00Z'')\<rparr>"

definition world_b_wrong_match :: world where
  "world_b_wrong_match =
     world_a_silent\<lparr>invite_a_net := answers (accept_response ''R1M1''),
                     invite_b_net := answers (accept_response ''R7M7'')\<rparr>"

definition world_b_silent :: world where
  "world_b_silent =
     world_a_silent\<lparr>invite_a_net := answers (accept_response ''R1M1''),
                     invite_b_net := always_times_out\<rparr>"

definition world_a_null_result :: world where
  "world_a_null_result =
     world_a_silent\<lparr>invite_a_net :=
       answers (JObj [(''jsonrpc'', JStr ''2.0''), (''result'', JNull), (''id'', JNum 1)])\<rparr>"

text \<open>
  The fields of the one result object reported to the League Manager: its winner, and
  the score it gives a player.
\<close>

definition reported_winner :: "effect list \<Rightarrow> json option list" where
  "reported_winner effs = map (\<lambda>res. json_field res ''winner'') (reported_results effs)"

definition reported_score :: "effect list \<Rightarrow> string \<Rightarrow> json option list" where
  "reported_score effs player_id =
     map (\<lambda>res. case json_field res ''score'' of
                  None \<Rightarrow> None
                | Some score \<Rightarrow> json_field score player_id)
         (reported_results effs)"

chapter \<open>Properties\<close>

section \<open>Scheduler\<close>

lemma length_combinations2: "length (combinations2 xs) = length xs * (length xs - 1) div 2"
proof (induction xs)
  case Nil
  show ?case by simp
next
  case (Cons x xs)
  have "length xs + length xs * (length xs - 1) div 2 = (length xs + 1) * length xs div 2"
    by (cases "length xs") (simp_all add: algebra_simps)
  with Cons show ?case by simp
qed

lemma set_combinations2:
  "distinct xs \<Longrightarrow> (x, y) \<in> set (combinations2 xs) \<Longrightarrow> x \<in> set xs \<and> y \<in> set xs \<and> x \<noteq> y"
  by (induction xs) auto

lemma combinations2_complete:
  "x \<in> set xs \<Longrightarrow> y \<in> set xs \<Longrightarrow> x \<noteq> y \<Longrightarrow>
     (x, y) \<in> set (combinations2 xs) \<or> (y, x) \<in> set (combinations2 xs)"
  by (induction xs) auto

lemma distinct_unordered_combinations2:
  "distinct xs \<Longrightarrow> distinct (map (\<lambda>(a, b). {a, b}) (combinations2 xs))"
proof (induction xs)
  case Nil
  show ?case by simp
next
  case (Cons x xs)
  have 1: "distinct (map (\<lambda>(a, b). {a, b}) (map (Pair x) xs))"
    using Cons.prems by (auto simp: distinct_map inj_on_def doubleton_eq_iff)
  have 2: "distinct (map (\<lambda>(a, b). {a, b}) (combinations2 xs))"
    using Cons by simp
  have 3: "{x, b} \<noteq> {c, d}" if "b \<in> set xs" "(c, d) \<in> set (combinations2 xs)" for b c d
    using that Cons.prems set_combinations2[of xs c d] by (auto simp: doubleton_eq_iff)
  show ?case using 1 2 3 by (auto simp: comp_def)
qed

lemma schedule_loop_pairs:
  "map (\<lambda>m. (player_a_id m, player_b_id m)) (schedule_loop ps k acc)
     = map (\<lambda>m. (player_a_id m, player_b_id m)) acc @ ps"
  by (induction ps k acc rule: schedule_loop.induct) (simp_all add: Let_def Match_def)

lemma schedule_loop_rounds:
  "map round_id (schedule_loop ps k acc)
     = map round_id acc @ map (\<lambda>i. (k + int i - 1) div 2 + 1) [0..<length ps]"
proof (induction ps k acc rule: schedule_loop.induct)
  case (1 k acc)
  show ?case by simp
next
  case (2 p1 p2 ps k acc)
  have "map (\<lambda>i. (k + int i - 1) div 2 + 1) [0..<Suc (length ps)]
      = ((k - 1) div 2 + 1) # map (\<lambda>i. (k + 1 + int i - 1) div 2 + 1) [0..<length ps]"
    by (simp add: upt_conv_Cons map_Suc_upt[symmetric] del: upt_Suc)
  with 2 show ?case by (simp add: Let_def Match_def)
qed

lemma pairs_of_schedule:
  "map (\<lambda>m. (player_a_id m, player_b_id m)) (create_round_robin_schedule ids) = combinations2 ids"
  by (simp add: create_round_robin_schedule_def schedule_loop_pairs)

lemma length_schedule:
  "length (create_round_robin_schedule ids) = length ids * (length ids - 1) div 2"
proof -
  have "length (map (\<lambda>m. (player_a_id m, player_b_id m)) (create_round_robin_schedule ids))
      = length (combinations2 ids)"
    by (simp only: pairs_of_schedule)
  then show ?thesis by (simp add: length_combinations2)
qed

lemma pairing_schedule:
  "map pairing (create_round_robin_schedule ids) = map (\<lambda>(a, b). {a, b}) (combinations2 ids)"
proof -
  have "map pairing (create_round_robin_schedule ids)
      = map (\<lambda>(a, b). {a, b}) (map (\<lambda>m. (player_a_id m, player_b_id m)) (create_round_robin_schedule ids))"
    by (simp add: pairing_def comp_def)
  then show ?thesis by (simp only: pairs_of_schedule)
qed

lemma rounds_of_schedule:
  "map round_id (create_round_robin_schedule ids)
     = map (\<lambda>i. int i div 2 + 1) [0..<length (create_round_robin_schedule ids)]"
proof -
  have "length (create_round_robin_schedule ids) = length (combinations2 ids)"
    by (simp add: length_schedule length_combinations2)
  then show ?thesis
    by (simp add: create_round_robin_schedule_def schedule_loop_rounds)
qed

lemma filter_eq_one:
  "distinct (map f xs) \<Longrightarrow> v \<in> set (map f xs) \<Longrightarrow> length (filter (\<lambda>x. f x = v) xs) = 1"
proof (induction xs)
  case Nil
  then show ?case by simp
next
  case (Cons a xs)
  show ?case
  proof (cases "f a = v")
    case True
    with Cons.prems have "filter (\<lambda>x. f x = v) xs = []"
      by (force simp: filter_empty_conv image_iff)
    with True show ?thesis by simp
  next
    case False
    with Cons show ?thesis by auto
  qed
qed

text \<open>
  Claim C1, as the code has it. For every list of distinct player ids (of any length \<open>n\<close>),
  \<open>create_round_robin_schedule\<close> returns exactly \<open>n * (n - 1) / 2\<close> matches; every unordered
  pair of distinct players appears in exactly one match; every match joins two different
  listed players and has a round id of at least 1; and the match at position \<open>k\<close> (counted
  from 0) is in round \<open>k div 2 + 1\<close>: rounds hold two consecutive matches each, whatever
  \<open>n\<close> is, not \<open>floor (n / 2)\<close>.
\<close>

theorem create_round_robin_schedule_pairs_and_rounds:
  assumes "distinct player_ids"
  shows "length (create_round_robin_schedule player_ids)
           = length player_ids * (length player_ids - 1) div 2
       \<and> (\<forall>x \<in> set player_ids. \<forall>y \<in> set player_ids. x \<noteq> y \<longrightarrow>
            length (filter (\<lambda>m. pairing m = {x, y}) (create_round_robin_schedule player_ids)) = 1)
       \<and> (\<forall>m \<in> set (create_round_robin_schedule player_ids).
            player_a_id m \<in> set player_ids \<and> player_b_id m \<in> set player_ids
            \<and> player_a_id m \<noteq> player_b_id m \<and> 1 \<le> round_id m)
       \<and> (\<forall>k < length (create_round_robin_schedule player_ids).
            round_id (create_round_robin_schedule player_ids ! k) = int k div 2 + 1)"
proof (intro conjI ballI allI impI)
  show "length (create_round_robin_schedule player_ids)
           = length player_ids * (length player_ids - 1) div 2"
    by (rule length_schedule)
next
  fix x y assume xy: "x \<in> set player_ids" "y \<in> set player_ids" "x \<noteq> y"
  have d: "distinct (map pairing (create_round_robin_schedule player_ids))"
    using assms by (simp add: pairing_schedule distinct_unordered_combinations2)
  have "(x, y) \<in> set (combinations2 player_ids) \<or> (y, x) \<in> set (combinations2 player_ids)"
    using xy by (rule combinations2_complete)
  then have "{x, y} \<in> set (map (\<lambda>(a, b). {a, b}) (combinations2 player_ids))"
    by (force simp: doubleton_eq_iff)
  then have "{x, y} \<in> set (map pairing (create_round_robin_schedule player_ids))"
    by (simp only: pairing_schedule)
  with d show "length (filter (\<lambda>m. pairing m = {x, y}) (create_round_robin_schedule player_ids)) = 1"
    by (rule filter_eq_one)
next
  fix k assume k: "k < length (create_round_robin_schedule player_ids)"
  have "round_id (create_round_robin_schedule player_ids ! k)
      = map round_id (create_round_robin_schedule player_ids) ! k"
    using k by simp
  also have "\<dots> = int k div 2 + 1"
    using k by (simp only: rounds_of_schedule) simp
  finally show "round_id (create_round_robin_schedule player_ids ! k) = int k div 2 + 1" .
next
  fix m assume m: "m \<in> set (create_round_robin_schedule player_ids)"
  then have "(player_a_id m, player_b_id m)
      \<in> set (map (\<lambda>m. (player_a_id m, player_b_id m)) (create_round_robin_schedule player_ids))"
    by (simp add: image_iff) blast
  then have c: "(player_a_id m, player_b_id m) \<in> set (combinations2 player_ids)"
    by (simp only: pairs_of_schedule)
  from m obtain k where k: "k < length (create_round_robin_schedule player_ids)"
      "create_round_robin_schedule player_ids ! k = m"
    by (auto simp: in_set_conv_nth)
  have "round_id m = map round_id (create_round_robin_schedule player_ids) ! k"
    using k by simp
  also have "\<dots> = int k div 2 + 1"
    using k by (simp only: rounds_of_schedule) simp
  finally have r: "1 \<le> round_id m" by simp
  show "player_a_id m \<in> set player_ids" "player_b_id m \<in> set player_ids"
       "player_a_id m \<noteq> player_b_id m" "1 \<le> round_id m"
    using set_combinations2[OF assms c] r by simp_all
qed

theorem create_round_robin_schedule_pairs_and_rounds_witness:
  "distinct [''P01'', ''P02'', ''P03'', ''P04'']
   \<and> length (create_round_robin_schedule [''P01'', ''P02'', ''P03'', ''P04'']) = 6
   \<and> length (filter (\<lambda>m. pairing m = {''P02'', ''P04''})
         (create_round_robin_schedule [''P01'', ''P02'', ''P03'', ''P04''])) = 1"
  using create_round_robin_schedule_pairs_and_rounds [of "[''P01'', ''P02'', ''P03'', ''P04'']"]
  by simp

text \<open>
  Claim C1 as stated fails on the round size: with three players \<open>floor (3 / 2) = 1\<close>, but
  round 1 of the schedule holds two matches.
\<close>

theorem round_size_counterexample:
  "length (get_matches_for_round (create_round_robin_schedule [''P01'', ''P02'', ''P03'']) 1)
     \<noteq> length [''P01'', ''P02'', ''P03''] div 2"
  by (simp add: get_matches_for_round_def create_round_robin_schedule_def Match_def Let_def)

section \<open>Game rules\<close>

text \<open>
  Claim C9. \<open>determine_winner\<close> is antisymmetric under swapping the two players: for all
  choices \<open>a\<close>, \<open>b\<close> and every drawn number \<open>k\<close>, the swapped call names PLAYER_B the winner
  exactly when the original call names PLAYER_A, names PLAYER_A exactly when the original
  names PLAYER_B, and is a draw exactly when the original is; equal choices are always a
  draw.
\<close>

theorem determine_winner_antisymmetric:
  "(fst (determine_winner b a k) = Some ''PLAYER_B'' \<longleftrightarrow> fst (determine_winner a b k) = Some ''PLAYER_A'')
   \<and> (fst (determine_winner b a k) = Some ''PLAYER_A'' \<longleftrightarrow> fst (determine_winner a b k) = Some ''PLAYER_B'')
   \<and> (fst (determine_winner b a k) = None \<longleftrightarrow> fst (determine_winner a b k) = None)
   \<and> fst (determine_winner a a k) = None"
  by (simp add: determine_winner_def Let_def)

theorem determine_winner_antisymmetric_witness:
  "fst (determine_winner ''EVEN'' ''odd'' 8) = Some ''PLAYER_A''
   \<and> fst (determine_winner ''odd'' ''EVEN'' 8) = Some ''PLAYER_B''
   \<and> fst (determine_winner ''odd'' ''odd'' 7) = None"
proof -
  have a: "fst (determine_winner ''EVEN'' ''odd'' 8) = Some ''PLAYER_A''"
    by (simp add: determine_winner_def get_parity_def lower_def lower_char_def Let_def)
  have b: "fst (determine_winner ''odd'' ''EVEN'' 8) = Some ''PLAYER_B''"
    using a determine_winner_antisymmetric [of "''odd''" "''EVEN''" 8] by simp
  have c: "fst (determine_winner ''odd'' ''odd'' 7) = None"
    using determine_winner_antisymmetric [of "''odd''" "''odd''" 7] by simp
  from a b c show ?thesis by simp
qed

section \<open>Transport client\<close>

lemma call_loop_exhausted:
  "\<not> int a < max_retries cfg \<Longrightarrow>
     call_loop cfg env rid a le = (Inr (retries_exhausted_response le rid), [])"
  by (simp add: call_loop.simps)

lemma call_loop_retry:
  assumes "int a < max_retries cfg" and "env a = Timeout e \<or> env a = ConnectionError e"
  shows "call_loop cfg env rid a le =
           (fst (call_loop cfg env rid (Suc a) (Some e)),
            Post a # (if int a < max_retries cfg - 1 then [Sleep (calculate_delay cfg a)] else [])
              @ snd (call_loop cfg env rid (Suc a) (Some e)))"
  using assms by (subst call_loop.simps) (auto simp: split_def Let_def)

lemma call_loop_http_error:
  assumes "int a < max_retries cfg" and "env a = Response st e body" and "raises_for_status st"
  shows "call_loop cfg env rid a le = (Inr (http_error_response e rid), [Post a])"
  using assms by (simp add: call_loop.simps)

lemma call_loop_final:
  assumes "int a < max_retries cfg" and "\<forall>e. env a \<noteq> Timeout e \<and> env a \<noteq> ConnectionError e"
  shows "snd (call_loop cfg env rid a le) = [Post a]"
  using assms by (cases "env a") (auto simp: call_loop.simps split: option.splits)

lemma call_loop_posts_from:
  "Post j \<in> set (snd (call_loop cfg env rid a le)) \<Longrightarrow> a \<le> j"
proof (induction cfg env rid a le rule: call_loop.induct)
  case (1 cfg env rid a le)
  show ?case
  proof (cases "int a < max_retries cfg")
    case False
    with "1.prems" show ?thesis by (simp add: call_loop_exhausted)
  next
    case True
    show ?thesis
    proof (cases "\<exists>e. env a = Timeout e \<or> env a = ConnectionError e")
      case False
      with True "1.prems" show ?thesis by (simp add: call_loop_final)
    next
      case True
      then obtain e where e: "env a = Timeout e \<or> env a = ConnectionError e" by blast
      from "1.prems" have "j = a \<or> Post j \<in> set (snd (call_loop cfg env rid (Suc a) (Some e)))"
        by (auto simp: call_loop_retry[where env = env and a = a, OF \<open>int a < max_retries cfg\<close> e] split: if_splits)
      moreover have "Post j \<in> set (snd (call_loop cfg env rid (Suc a) (Some e))) \<Longrightarrow> Suc a \<le> j"
        using e "1.IH" \<open>int a < max_retries cfg\<close> by (auto simp: split_def intro: prod.collapse[symmetric])
      ultimately show ?thesis by auto
    qed
  qed
qed

lemma call_loop_retry_cause:
  "Post (Suc j) \<in> set (snd (call_loop cfg env rid a le)) \<Longrightarrow> a \<le> j \<Longrightarrow>
     \<exists>e. env j = Timeout e \<or> env j = ConnectionError e"
proof (induction cfg env rid a le rule: call_loop.induct)
  case (1 cfg env rid a le)
  show ?case
  proof (cases "int a < max_retries cfg")
    case False
    with "1.prems" show ?thesis by (simp add: call_loop_exhausted)
  next
    case True
    show ?thesis
    proof (cases "\<exists>e. env a = Timeout e \<or> env a = ConnectionError e")
      case False
      with True "1.prems" show ?thesis by (simp add: call_loop_final)
    next
      case True
      then obtain e where e: "env a = Timeout e \<or> env a = ConnectionError e" by blast
      from "1.prems" have in_rest: "Post (Suc j) \<in> set (snd (call_loop cfg env rid (Suc a) (Some e)))"
        by (auto simp: call_loop_retry[where env = env and a = a, OF \<open>int a < max_retries cfg\<close> e] split: if_splits)
      show ?thesis
      proof (cases "j = a")
        case True
        with e show ?thesis by blast
      next
        case False
        with "1.prems" have "Suc a \<le> j" by simp
        with in_rest e "1.IH" \<open>int a < max_retries cfg\<close> show ?thesis
          by (auto simp: split_def intro: prod.collapse[symmetric])
      qed
    qed
  qed
qed

lemma call_loop_http_terminal:
  "Post j \<in> set (snd (call_loop cfg env rid a le)) \<Longrightarrow> env j = Response st e body \<Longrightarrow>
     raises_for_status st \<Longrightarrow>
     fst (call_loop cfg env rid a le) = Inr (http_error_response e rid)
     \<and> last (snd (call_loop cfg env rid a le)) = Post j"
proof (induction cfg env rid a le rule: call_loop.induct)
  case (1 cfg env rid a le)
  show ?case
  proof (cases "int a < max_retries cfg")
    case False
    with "1.prems" show ?thesis by (simp add: call_loop_exhausted)
  next
    case True
    show ?thesis
    proof (cases "\<exists>e'. env a = Timeout e' \<or> env a = ConnectionError e'")
      case False
      with True "1.prems" have "j = a" by (simp add: call_loop_final)
      with True "1.prems" show ?thesis by (simp add: call_loop_http_error)
    next
      case True
      then obtain e' where e': "env a = Timeout e' \<or> env a = ConnectionError e'" by blast
      with "1.prems" have "j \<noteq> a" by auto
      with "1.prems" have in_rest: "Post j \<in> set (snd (call_loop cfg env rid (Suc a) (Some e')))"
        by (auto simp: call_loop_retry[where env = env and a = a, OF \<open>int a < max_retries cfg\<close> e'] split: if_splits)
      then have ne: "snd (call_loop cfg env rid (Suc a) (Some e')) \<noteq> []" by auto
      have "fst (call_loop cfg env rid (Suc a) (Some e')) = Inr (http_error_response e rid)
          \<and> last (snd (call_loop cfg env rid (Suc a) (Some e'))) = Post j"
        using in_rest e' "1.IH" "1.prems"(2,3) \<open>int a < max_retries cfg\<close>
        by (auto simp: split_def intro: prod.collapse[symmetric])
      with ne show ?thesis
        by (simp add: call_loop_retry[where env = env and a = a, OF \<open>int a < max_retries cfg\<close> e'])
    qed
  qed
qed

text \<open>
  Claim C3. In every call of the transport client, an attempt is followed by another
  attempt only if it ended in a timeout or a connection failure; and an attempt answered
  with an HTTP 4xx/5xx status is the last thing the client does: it returns the structured
  HTTP error at once, with no sleep and no further attempt.
\<close>

theorem http_error_never_retried:
  "(\<forall>i. Post (Suc i) \<in> set (snd (fst (call client env))) \<longrightarrow>
        (\<exists>e. env i = Timeout e \<or> env i = ConnectionError e))
   \<and> (\<forall>i st e body. Post i \<in> set (snd (fst (call client env))) \<and> env i = Response st e body
          \<and> raises_for_status st \<longrightarrow>
        fst (fst (call client env)) = Inr (http_error_response e (request_id client + 1))
        \<and> last (snd (fst (call client env))) = Post i)"
  using call_loop_retry_cause call_loop_http_terminal
  by (fastforce simp: call_def Let_def)

lemma call_loop_always_timeout:
  assumes "max_retries cfg = 3" and "base_delay cfg = 2" and "backoff_multiplier cfg = 2"
      and "\<forall>i. env i = Timeout (msg i)"
  shows "call_loop cfg env rid 0 None
           = (Inr (retries_exhausted_response (Some (msg 2)) rid),
              [Post 0, Sleep 2, Post 1, Sleep 4, Post 2])"
proof -
  have 3: "call_loop cfg env rid (Suc (Suc (Suc 0))) (Some (msg 2))
             = (Inr (retries_exhausted_response (Some (msg 2)) rid), [])"
    using assms(1) by (simp add: call_loop_exhausted)
  have 2: "call_loop cfg env rid (Suc (Suc 0)) (Some (msg 1))
             = (Inr (retries_exhausted_response (Some (msg 2)) rid), [Post 2])"
    using assms call_loop_retry[where env = env and a = "Suc (Suc 0)" and e = "msg 2" and cfg = cfg
        and rid = rid and le = "Some (msg 1)"] 3
    by (simp add: numeral_2_eq_2)
  have 1: "call_loop cfg env rid (Suc 0) (Some (msg 0))
             = (Inr (retries_exhausted_response (Some (msg 2)) rid), [Post 1, Sleep 4, Post 2])"
    using assms call_loop_retry[where env = env and a = "Suc 0" and e = "msg 1" and cfg = cfg
        and rid = rid and le = "Some (msg 0)"] 2
    by (simp add: calculate_delay_def)
  show ?thesis
    using assms call_loop_retry[where env = env and a = 0 and e = "msg 0" and cfg = cfg
        and rid = rid and le = None] 1
    by (simp add: calculate_delay_def)
qed

text \<open>
  Claim C2. A client configured with \<open>max_retries = 3\<close>, \<open>base_delay = 2\<close>,
  \<open>backoff_multiplier = 2\<close> whose every attempt times out performs exactly three attempts,
  sleeps 2 seconds after the first and 4 seconds after the second, does not sleep after
  the third, and returns a structured error: the retries-exhausted response, whose
  machine-readable code is one of the two the claim names, E001 (timeout) and E009
  (connection error), namely E009 with the description CONNECTION_ERROR.
\<close>

theorem call_always_timeout_three_attempts:
  assumes "max_retries (retry_config client) = 3"
      and "base_delay (retry_config client) = 2"
      and "backoff_multiplier (retry_config client) = 2"
      and "\<forall>i. env i = Timeout (msg i)"
  shows "snd (fst (call client env)) = [Post 0, Sleep 2, Post 1, Sleep 4, Post 2]
       \<and> fst (fst (call client env))
           = Inr (retries_exhausted_response (Some (msg 2)) (request_id client + 1))
       \<and> (\<exists>response. fst (fst (call client env)) = Inr response
            \<and> error_code response \<in> {Some (JStr ''E001''), Some (JStr ''E009'')}
            \<and> error_code response = Some (JStr ''E009'')
            \<and> error_description response = Some (JStr ''CONNECTION_ERROR''))"
proof -
  let ?cfg = "retry_config client" and ?rid = "request_id client + 1"
  have e: "error_code (retries_exhausted_response (Some (msg 2)) ?rid) = Some (JStr ''E009'')"
      "error_description (retries_exhausted_response (Some (msg 2)) ?rid)
         = Some (JStr ''CONNECTION_ERROR'')"
    by (simp_all add: error_code_def error_description_def retries_exhausted_response_def)
  from call_loop_always_timeout[OF assms, of ?rid] e show ?thesis
    by (simp add: call_def Let_def)
qed

theorem call_always_timeout_three_attempts_witness:
  "snd (fst (call (MCPClient None) always_times_out)) = [Post 0, Sleep 2, Post 1, Sleep 4, Post 2]
   \<and> fst (fst (call (MCPClient None) always_times_out))
       = Inr (retries_exhausted_response (Some ''Read timed out.'') 1)
   \<and> (\<exists>response. fst (fst (call (MCPClient None) always_times_out)) = Inr response
        \<and> error_code response = Some (JStr ''E009''))"
  using call_always_timeout_three_attempts [of "MCPClient None" always_times_out "\<lambda>i. ''Read timed out.''"]
  by (auto simp: MCPClient_def RetryConfig_def always_times_out_def)

theorem http_error_never_retried_witness:
  "Post (Suc 0) \<in> set (snd (fst (call (MCPClient None) times_out_then_503)))
   \<and> times_out_then_503 0 = Timeout ''Read timed out.''
   \<and> raises_for_status 503
   \<and> fst (fst (call (MCPClient None) times_out_then_503)) = Inr (http_error_response ''503 Server Error'' 1)
   \<and> last (snd (fst (call (MCPClient None) times_out_then_503))) = Post (Suc 0)"
proof -
  have p: "Post (Suc 0) \<in> set (snd (fst (call (MCPClient None) times_out_then_503)))"
    by (simp add: call_def MCPClient_def RetryConfig_def times_out_then_503_def call_loop.simps
        raises_for_status_def)
  have r: "times_out_then_503 (Suc 0) = Response 503 ''503 Server Error'' None"
      "raises_for_status 503" "times_out_then_503 0 = Timeout ''Read timed out.''"
    by (simp_all add: times_out_then_503_def raises_for_status_def)
  have "fst (fst (call (MCPClient None) times_out_then_503))
          = Inr (http_error_response ''503 Server Error'' (request_id (MCPClient None) + 1))
      \<and> last (snd (fst (call (MCPClient None) times_out_then_503))) = Post (Suc 0)"
    using http_error_never_retried [of "MCPClient None" times_out_then_503, THEN conjunct2, rule_format,
        of "Suc 0" 503 "''503 Server Error''" None] p r
    by simp
  with p r show ?thesis by (simp add: MCPClient_def)
qed

section \<open>League state\<close>

lemma digit_char_inj: "a < 10 \<Longrightarrow> b < 10 \<Longrightarrow> digit_char a = digit_char b \<Longrightarrow> a = b"
  unfolding digit_char_def
  by (simp add: nth_eq_iff_index_eq)

lemma map_of_dict_set: "map_of (dict_set k v d) k' = (if k' = k then Some v else map_of d k')"
  by (induction d) auto

lemma map_of_mutate:
  "map_of (mutate k f d) k' = (if k' = k then map_option f (map_of d k) else map_of d k')"
  by (auto simp: mutate_def map_of_dict_set split: option.splits)

lemma standings_save_standings: "standings (save_standings s now) = standings s"
  by (simp add: save_standings_def)

text \<open>
  Claim C4. A completed match between two different players who both have a standings
  row is applied as follows. A draw (winner \<open>None\<close>) adds 1 to \<open>played\<close>, \<open>draws\<close> and
  \<open>points\<close> of both players. A decisive result adds 1 to \<open>played\<close> and \<open>wins\<close> and 3 to
  \<open>points\<close> of the winner, and 1 to \<open>played\<close> and \<open>losses\<close> of the loser, whose points do not
  change. Nothing else in either row changes, and no other player's row changes. The
  points agree with the scores that \<open>calculate_score\<close> reports for the same outcome: 1 and
  1 for a draw, 3 and 0 for a win.
\<close>

theorem update_standings_for_match_increments:
  assumes "map_of (standings s) a = Some sa" and "map_of (standings s) b = Some sb" and "a \<noteq> b"
  shows "(w = JNull \<longrightarrow>
            map_of (standings (update_standings_for_match s a b w now)) a
              = Some (sa\<lparr>played := played sa + 1, draws := draws sa + 1, points := points sa + 1\<rparr>)
          \<and> map_of (standings (update_standings_for_match s a b w now)) b
              = Some (sb\<lparr>played := played sb + 1, draws := draws sb + 1, points := points sb + 1\<rparr>))
       \<and> (w = JStr a \<longrightarrow>
            map_of (standings (update_standings_for_match s a b w now)) a
              = Some (sa\<lparr>played := played sa + 1, wins := wins sa + 1, points := points sa + 3\<rparr>)
          \<and> map_of (standings (update_standings_for_match s a b w now)) b
              = Some (sb\<lparr>played := played sb + 1, losses := losses sb + 1\<rparr>))
       \<and> (w = JStr b \<longrightarrow>
            map_of (standings (update_standings_for_match s a b w now)) b
              = Some (sb\<lparr>played := played sb + 1, wins := wins sb + 1, points := points sb + 3\<rparr>)
          \<and> map_of (standings (update_standings_for_match s a b w now)) a
              = Some (sa\<lparr>played := played sa + 1, losses := losses sa + 1\<rparr>))
       \<and> (\<forall>c. c \<noteq> a \<and> c \<noteq> b \<longrightarrow>
            map_of (standings (update_standings_for_match s a b w now)) c = map_of (standings s) c)
       \<and> map_of (calculate_score None a b) a = Some 1
       \<and> map_of (calculate_score None a b) b = Some 1
       \<and> map_of (calculate_score (Some ''PLAYER_A'') a b) a = Some 3
       \<and> map_of (calculate_score (Some ''PLAYER_A'') a b) b = Some 0
       \<and> map_of (calculate_score (Some ''PLAYER_B'') a b) a = Some 0
       \<and> map_of (calculate_score (Some ''PLAYER_B'') a b) b = Some 3"
proof -
  have score: "map_of (calculate_score None a b) a = Some 1"
      "map_of (calculate_score None a b) b = Some 1"
      "map_of (calculate_score (Some ''PLAYER_A'') a b) a = Some 3"
      "map_of (calculate_score (Some ''PLAYER_A'') a b) b = Some 0"
      "map_of (calculate_score (Some ''PLAYER_B'') a b) a = Some 0"
      "map_of (calculate_score (Some ''PLAYER_B'') a b) b = Some 3"
    using \<open>a \<noteq> b\<close> by (simp_all add: calculate_score_def)
  have upd: "\<And>w. standings (update_standings_for_match s a b w now)
      = (let d = standings s;
             d = mutate a (\<lambda>v. v\<lparr>played := played v + 1\<rparr>) d;
             d = mutate b (\<lambda>v. v\<lparr>played := played v + 1\<rparr>) d
         in if w = JNull then
              mutate b (\<lambda>v. v\<lparr>points := points v + 1\<rparr>)
                (mutate a (\<lambda>v. v\<lparr>points := points v + 1\<rparr>)
                  (mutate b (\<lambda>v. v\<lparr>draws := draws v + 1\<rparr>)
                    (mutate a (\<lambda>v. v\<lparr>draws := draws v + 1\<rparr>) d)))
            else if w = JStr a then
              mutate b (\<lambda>v. v\<lparr>losses := losses v + 1\<rparr>)
                (mutate a (\<lambda>v. v\<lparr>points := points v + 3\<rparr>)
                  (mutate a (\<lambda>v. v\<lparr>wins := wins v + 1\<rparr>) d))
            else
              mutate a (\<lambda>v. v\<lparr>losses := losses v + 1\<rparr>)
                (mutate b (\<lambda>v. v\<lparr>points := points v + 3\<rparr>)
                  (mutate b (\<lambda>v. v\<lparr>wins := wins v + 1\<rparr>) d)))"
    using assms(1,2)
    by (simp add: update_standings_for_match_def Let_def standings_save_standings)
  have main: "(w = JNull \<longrightarrow>
            map_of (standings (update_standings_for_match s a b w now)) a
              = Some (sa\<lparr>played := played sa + 1, draws := draws sa + 1, points := points sa + 1\<rparr>)
          \<and> map_of (standings (update_standings_for_match s a b w now)) b
              = Some (sb\<lparr>played := played sb + 1, draws := draws sb + 1, points := points sb + 1\<rparr>))
       \<and> (w = JStr a \<longrightarrow>
            map_of (standings (update_standings_for_match s a b w now)) a
              = Some (sa\<lparr>played := played sa + 1, wins := wins sa + 1, points := points sa + 3\<rparr>)
          \<and> map_of (standings (update_standings_for_match s a b w now)) b
              = Some (sb\<lparr>played := played sb + 1, losses := losses sb + 1\<rparr>))
       \<and> (w = JStr b \<longrightarrow>
            map_of (standings (update_standings_for_match s a b w now)) b
              = Some (sb\<lparr>played := played sb + 1, wins := wins sb + 1, points := points sb + 3\<rparr>)
          \<and> map_of (standings (update_standings_for_match s a b w now)) a
              = Some (sa\<lparr>played := played sa + 1, losses := losses sa + 1\<rparr>))
       \<and> (\<forall>c. c \<noteq> a \<and> c \<noteq> b \<longrightarrow>
            map_of (standings (update_standings_for_match s a b w now)) c = map_of (standings s) c)"
    using assms by (simp add: upd Let_def map_of_mutate)
  from main score show ?thesis by simp
qed

theorem update_standings_for_match_increments_witness:
  "map_of (standings (update_standings_for_match
       (snd (register_player (snd (register_player (LeagueState ''L'') ''Ann'' ''e1'' ''1.0.0'' None ''t1''))
          ''Bob'' ''e2'' ''1.0.0'' None ''t2''))
       ''P01'' ''P02'' (JStr ''P02'') ''now'')) ''P02''
     = Some \<lparr>ps_player_id = ''P02'', ps_display_name = ''Bob'', played = 1, wins = 1, draws = 0,
         losses = 0, points = 3\<rparr>"
proof -
  let ?s = "snd (register_player (snd (register_player (LeagueState ''L'') ''Ann'' ''e1'' ''1.0.0'' None ''t1''))
          ''Bob'' ''e2'' ''1.0.0'' None ''t2'')"
  have st: "standings ?s = [(''P01'', PlayerStanding ''P01'' ''Ann''), (''P02'', PlayerStanding ''P02'' ''Bob'')]"
    by (simp add: register_player_def LeagueState_def Let_def format_02d_def digit_char_def)
  have a: "map_of (standings ?s) ''P01'' = Some (PlayerStanding ''P01'' ''Ann'')"
    and b: "map_of (standings ?s) ''P02'' = Some (PlayerStanding ''P02'' ''Bob'')"
    and ab: "''P01'' \<noteq> ''P02''"
    by (simp_all add: st)
  show ?thesis
    using update_standings_for_match_increments [OF a b ab, of "JStr ''P02''" "''now''"]
    by (simp add: PlayerStanding_def)
qed

lemma update_standings_preserves:
  assumes "\<forall>p v. map_of (standings s) p = Some v \<longrightarrow> played v = wins v + draws v + losses v"
  shows "\<forall>p v. map_of (standings (update_standings_for_match s a b w now)) p = Some v
           \<longrightarrow> played v = wins v + draws v + losses v"
  using assms
  by (auto simp: update_standings_for_match_def Let_def standings_save_standings map_of_mutate
      split: if_splits)

lemma register_player_preserves:
  assumes "\<forall>p v. map_of (standings s) p = Some v \<longrightarrow> played v = wins v + draws v + losses v"
  shows "\<forall>p v. map_of (standings (snd (register_player s name ep ver gts tok))) p = Some v
           \<longrightarrow> played v = wins v + draws v + losses v"
  using assms
  by (auto simp: register_player_def Let_def map_of_dict_set PlayerStanding_def split: if_splits)

lemma register_referee_standings:
  "standings (snd (register_referee s name ep ver gts cap tok)) = standings s"
  by (simp add: register_referee_def Let_def)

lemma fst_exec_op:
  "fst (exec_op s (Register_referee name ep ver gts cap tok))
     = snd (register_referee s name ep ver gts cap tok)"
  "fst (exec_op s (Register_player name ep ver gts tok))
     = snd (register_player s name ep ver gts tok)"
  "fst (exec_op s (Update_standings a b w now)) = update_standings_for_match s a b w now"
  by (simp_all add: split_def Let_def)

lemma snd_exec_op:
  "snd (exec_op s (Register_referee name ep ver gts cap tok))
     = [Referee_id (''REF'' @ format_02d (next_referee_num s))]"
  "snd (exec_op s (Register_player name ep ver gts tok))
     = [Player_id (''P'' @ format_02d (next_player_num s))]"
  "snd (exec_op s (Update_standings a b w now)) = []"
  by (simp_all add: split_def Let_def register_referee_def register_player_def)

lemma exec_ops_Cons:
  "fst (exec_ops s (x # xs)) = fst (exec_ops (fst (exec_op s x)) xs)"
  "snd (exec_ops s (x # xs)) = snd (exec_op s x) @ snd (exec_ops (fst (exec_op s x)) xs)"
  by (simp_all add: split_def Let_def)

lemma exec_op_preserves:
  assumes "\<forall>p v. map_of (standings s) p = Some v \<longrightarrow> played v = wins v + draws v + losses v"
  shows "\<forall>p v. map_of (standings (fst (exec_op s x))) p = Some v
           \<longrightarrow> played v = wins v + draws v + losses v"
proof (cases x)
  case (Register_referee name ep ver gts cap tok)
  with assms register_referee_standings[of s name ep ver gts cap tok] show ?thesis
    by (simp add: fst_exec_op del: exec_op.simps)
next
  case (Register_player name ep ver gts tok)
  with register_player_preserves[OF assms, of name ep ver gts tok] show ?thesis
    by (simp add: fst_exec_op del: exec_op.simps)
next
  case (Update_standings a b w now)
  with update_standings_preserves[OF assms, of a b w now] show ?thesis
    by (simp add: fst_exec_op del: exec_op.simps)
qed

lemma exec_ops_preserves:
  "\<forall>p v. map_of (standings s) p = Some v \<longrightarrow> played v = wins v + draws v + losses v \<Longrightarrow>
   \<forall>p v. map_of (standings (fst (exec_ops s xs))) p = Some v
           \<longrightarrow> played v = wins v + draws v + losses v"
proof (induction xs arbitrary: s)
  case Nil
  then show ?case by simp
next
  case (Cons x xs)
  from Cons.IH[OF exec_op_preserves[OF Cons.prems, of x]] show ?case
    by (simp add: exec_ops_Cons del: exec_ops.simps)
qed

text \<open>
  Claim C5. In every state reached from a new league by any sequence of registrations
  and standings updates, every player's standing satisfies
  \<open>played = wins + draws + losses\<close>. \<open>register_player\<close> creates the row of the new id with
  all counters zero, and every standings update preserves the invariant, also when both
  participants are the same player.
\<close>

theorem played_is_wins_draws_losses:
  "(\<forall>p v. map_of (standings (fst (exec_ops (LeagueState lid) ops))) p = Some v
      \<longrightarrow> played v = wins v + draws v + losses v)
   \<and> map_of (standings (snd (register_player s name ep ver gts tok)))
         (rp_player_id (fst (register_player s name ep ver gts tok)))
       = Some \<lparr>ps_player_id = rp_player_id (fst (register_player s name ep ver gts tok)),
           ps_display_name = name, played = 0, wins = 0, draws = 0, losses = 0, points = 0\<rparr>
   \<and> ((\<forall>p v. map_of (standings s) p = Some v \<longrightarrow> played v = wins v + draws v + losses v)
        \<longrightarrow> (\<forall>p v. map_of (standings (update_standings_for_match s a b w now)) p = Some v
               \<longrightarrow> played v = wins v + draws v + losses v))"
proof (intro conjI)
  show "\<forall>p v. map_of (standings (fst (exec_ops (LeagueState lid) ops))) p = Some v
      \<longrightarrow> played v = wins v + draws v + losses v"
    by (rule exec_ops_preserves) (simp add: LeagueState_def)
  show "map_of (standings (snd (register_player s name ep ver gts tok)))
         (rp_player_id (fst (register_player s name ep ver gts tok)))
       = Some \<lparr>ps_player_id = rp_player_id (fst (register_player s name ep ver gts tok)),
           ps_display_name = name, played = 0, wins = 0, draws = 0, losses = 0, points = 0\<rparr>"
    by (simp add: register_player_def Let_def map_of_dict_set PlayerStanding_def)
  show "(\<forall>p v. map_of (standings s) p = Some v \<longrightarrow> played v = wins v + draws v + losses v)
        \<longrightarrow> (\<forall>p v. map_of (standings (update_standings_for_match s a b w now)) p = Some v
               \<longrightarrow> played v = wins v + draws v + losses v)"
    using update_standings_preserves by blast
qed

lemma league_example_standings:
  "standings (fst (exec_ops (LeagueState ''L'') league_example))
     = [(''P01'', \<lparr>ps_player_id = ''P01'', ps_display_name = ''Ann'', played = 2, wins = 0,
                   draws = 1, losses = 1, points = 1\<rparr>),
        (''P02'', \<lparr>ps_player_id = ''P02'', ps_display_name = ''Bob'', played = 2, wins = 1,
                   draws = 1, losses = 0, points = 4\<rparr>)]"
  by code_simp

theorem played_is_wins_draws_losses_witness:
  "map_of (standings (fst (exec_ops (LeagueState ''L'') league_example))) ''P01''
     = Some \<lparr>ps_player_id = ''P01'', ps_display_name = ''Ann'', played = 2, wins = 0,
                   draws = 1, losses = 1, points = 1\<rparr>
   \<and> (2::int) = 0 + 1 + 1"
  using played_is_wins_draws_losses [of "''L''" league_example, THEN conjunct1, rule_format, of "''P01''"]
  by (simp add: league_example_standings)

lemma str_nat_small: "n < 10 \<Longrightarrow> str_nat n = [digit_char n]"
  by (subst str_nat.simps) (simp del: str_nat.simps)

lemma str_nat_large: "\<not> n < 10 \<Longrightarrow> str_nat n = str_nat (n div 10) @ [digit_char (n mod 10)]"
  by (subst str_nat.simps) (simp del: str_nat.simps)

lemma str_nat_nonempty: "str_nat n \<noteq> []"
  by (cases "n < 10") (simp_all add: str_nat_small str_nat_large del: str_nat.simps)

lemma str_nat_inj: "str_nat n = str_nat m \<Longrightarrow> n = m"
proof (induction n arbitrary: m rule: str_nat.induct)
  case (1 n)
  show ?case
  proof (cases "n < 10")
    case True
    note n = this
    show ?thesis
    proof (cases "m < 10")
      case True
      with n "1.prems" show ?thesis
        by (simp add: str_nat_small del: str_nat.simps) (rule digit_char_inj)
    next
      case False
      with n "1.prems" str_nat_nonempty[of "m div 10"] show ?thesis
        by (simp add: str_nat_small str_nat_large Cons_eq_append_conv del: str_nat.simps)
    qed
  next
    case False
    note n = this
    show ?thesis
    proof (cases "m < 10")
      case True
      with n "1.prems" str_nat_nonempty[of "n div 10"] show ?thesis
        by (simp add: str_nat_small str_nat_large append_eq_Cons_conv del: str_nat.simps)
    next
      case False
      with "1.prems" n
      have "str_nat (n div 10) = str_nat (m div 10)" "digit_char (n mod 10) = digit_char (m mod 10)"
        by (simp_all add: str_nat_large del: str_nat.simps)
      with "1.IH"[OF n, of "m div 10"] have "n div 10 = m div 10"
        by (simp del: str_nat.simps)
      moreover have "n mod 10 = m mod 10"
        using \<open>digit_char (n mod 10) = digit_char (m mod 10)\<close>
        by (intro digit_char_inj) simp_all
      ultimately
      show ?thesis by (metis div_mult_mod_eq)
    qed
  qed
qed

lemma hd_str_nat_not_zero: "0 < n \<Longrightarrow> hd (str_nat n) \<noteq> CHR ''0''"
proof (induction n rule: str_nat.induct)
  case (1 n)
  show ?case
  proof (cases "n < 10")
    case True
    have "digit_char n \<noteq> digit_char 0"
      using digit_char_inj[of n 0] True "1.prems" by (auto simp del: str_nat.simps)
    with True show ?thesis by (simp add: str_nat_small digit_char_def del: str_nat.simps)
  next
    case False
    then have "0 < n div 10" by (simp del: str_nat.simps)
    with "1.IH"[OF False] False str_nat_nonempty[of "n div 10"] show ?thesis
      by (simp add: str_nat_large del: str_nat.simps)
  qed
qed

lemma length_str_nat_large: "\<not> n < 10 \<Longrightarrow> 2 \<le> length (str_nat n)"
  using str_nat_nonempty[of "n div 10"]
  by (simp add: str_nat_large Suc_le_eq del: str_nat.simps)

lemma format_02d_nonneg:
  "0 \<le> i \<Longrightarrow> format_02d i = (if i < 10 then [CHR ''0'', digit_char (nat i)] else str_nat (nat i))"
  using length_str_nat_large[of "nat i"]
  by (auto simp: format_02d_def str_nat_small numeral_2_eq_2 simp del: str_nat.simps)

lemma format_02d_inj:
  assumes "0 \<le> i" and "0 \<le> j" and "format_02d i = format_02d j"
  shows "i = j"
proof -
  have small_large: False
    if "0 \<le> a" "a < 10" "\<not> b < 10" "[CHR ''0'', digit_char (nat a)] = str_nat (nat b)" for a b :: int
  proof -
    from that have "0 < nat b" by simp
    from hd_str_nat_not_zero[OF this] that(4) show False by (metis list.sel(1))
  qed
  show ?thesis
  proof (cases "i < 10")
    case True
    note i = this
    show ?thesis
    proof (cases "j < 10")
      case True
      with i assms have "digit_char (nat i) = digit_char (nat j)"
        by (simp add: format_02d_nonneg del: str_nat.simps)
      with i True assms have "nat i = nat j" by (intro digit_char_inj) auto
      with assms show ?thesis by simp
    next
      case False
      with i assms small_large[of i j] show ?thesis
        by (simp add: format_02d_nonneg del: str_nat.simps)
    qed
  next
    case False
    note i = this
    show ?thesis
    proof (cases "j < 10")
      case True
      with i assms small_large[of j i] show ?thesis
        by (simp add: format_02d_nonneg del: str_nat.simps)
    next
      case False
      with i assms have "str_nat (nat i) = str_nat (nat j)"
        by (simp add: format_02d_nonneg del: str_nat.simps)
      then have "nat i = nat j" by (rule str_nat_inj)
      with assms show ?thesis by simp
    qed
  qed
qed



lemma allocated_append:
  "allocated_players (xs @ ys) = allocated_players xs @ allocated_players ys"
  "allocated_referees (xs @ ys) = allocated_referees xs @ allocated_referees ys"
  by (induction xs rule: allocated_players.induct) simp_all

lemma allocated_players_exec_ops:
  "allocated_players (snd (exec_ops s xs))
     = map (\<lambda>k. ''P'' @ format_02d (next_player_num s + int k))
         [0..<length (allocated_players (snd (exec_ops s xs)))]
   \<and> next_player_num (fst (exec_ops s xs))
     = next_player_num s + int (length (allocated_players (snd (exec_ops s xs))))"
proof (induction xs arbitrary: s)
  case Nil
  show ?case by simp
next
  case (Cons x xs)
  let ?s1 = "fst (exec_op s x)"
  let ?n = "length (allocated_players (snd (exec_ops ?s1 xs)))"
  note IH = Cons.IH[of ?s1]
  show ?case
  proof (cases x)
    case (Register_player name ep ver gts tok)
    then have s1: "next_player_num ?s1 = next_player_num s + 1"
      by (simp add: split_def Let_def register_player_def)
    have hd: "snd (exec_op s x) = [Player_id (''P'' @ format_02d (next_player_num s))]"
      using Register_player by (simp add: snd_exec_op del: exec_op.simps)
    have "map (\<lambda>k. ''P'' @ format_02d (next_player_num s + int k)) [0..<Suc ?n]
        = (''P'' @ format_02d (next_player_num s))
          # map (\<lambda>k. ''P'' @ format_02d (next_player_num s + 1 + int k)) [0..<?n]"
      by (simp add: upt_conv_Cons map_Suc_upt[symmetric] add.assoc del: upt_Suc)
    with IH s1 hd show ?thesis
      by (simp add: exec_ops_Cons allocated_append del: exec_ops.simps exec_op.simps)
  next
    case (Register_referee name ep ver gts cap tok)
    then have s1: "next_player_num ?s1 = next_player_num s"
      by (simp add: split_def Let_def register_referee_def)
    have hd: "snd (exec_op s x) = [Referee_id (''REF'' @ format_02d (next_referee_num s))]"
      using Register_referee by (simp add: snd_exec_op del: exec_op.simps)
    with IH s1 show ?thesis
      by (simp add: exec_ops_Cons allocated_append del: exec_ops.simps exec_op.simps)
  next
    case (Update_standings a b w now)
    then have s1: "next_player_num ?s1 = next_player_num s"
      by (simp add: update_standings_for_match_def save_standings_def Let_def)
    have hd: "snd (exec_op s x) = []"
      using Update_standings by simp
    with IH s1 show ?thesis
      by (simp add: exec_ops_Cons allocated_append del: exec_ops.simps exec_op.simps)
  qed
qed

lemma allocated_referees_exec_ops:
  "allocated_referees (snd (exec_ops s xs))
     = map (\<lambda>k. ''REF'' @ format_02d (next_referee_num s + int k))
         [0..<length (allocated_referees (snd (exec_ops s xs)))]
   \<and> next_referee_num (fst (exec_ops s xs))
     = next_referee_num s + int (length (allocated_referees (snd (exec_ops s xs))))"
proof (induction xs arbitrary: s)
  case Nil
  show ?case by simp
next
  case (Cons x xs)
  let ?s1 = "fst (exec_op s x)"
  let ?n = "length (allocated_referees (snd (exec_ops ?s1 xs)))"
  note IH = Cons.IH[of ?s1]
  show ?case
  proof (cases x)
    case (Register_referee name ep ver gts cap tok)
    then have s1: "next_referee_num ?s1 = next_referee_num s + 1"
      by (simp add: split_def Let_def register_referee_def)
    have hd: "snd (exec_op s x) = [Referee_id (''REF'' @ format_02d (next_referee_num s))]"
      using Register_referee by (simp add: snd_exec_op del: exec_op.simps)
    have "map (\<lambda>k. ''REF'' @ format_02d (next_referee_num s + int k)) [0..<Suc ?n]
        = (''REF'' @ format_02d (next_referee_num s))
          # map (\<lambda>k. ''REF'' @ format_02d (next_referee_num s + 1 + int k)) [0..<?n]"
      by (simp add: upt_conv_Cons map_Suc_upt[symmetric] add.assoc del: upt_Suc)
    with IH s1 hd show ?thesis
      by (simp add: exec_ops_Cons allocated_append del: exec_ops.simps exec_op.simps)
  next
    case (Register_player name ep ver gts tok)
    then have s1: "next_referee_num ?s1 = next_referee_num s"
      by (simp add: split_def Let_def register_player_def)
    have hd: "snd (exec_op s x) = [Player_id (''P'' @ format_02d (next_player_num s))]"
      using Register_player by (simp add: snd_exec_op del: exec_op.simps)
    with IH s1 show ?thesis
      by (simp add: exec_ops_Cons allocated_append del: exec_ops.simps exec_op.simps)
  next
    case (Update_standings a b w now)
    then have s1: "next_referee_num ?s1 = next_referee_num s"
      by (simp add: update_standings_for_match_def save_standings_def Let_def)
    have hd: "snd (exec_op s x) = []"
      using Update_standings by simp
    with IH s1 show ?thesis
      by (simp add: exec_ops_Cons allocated_append del: exec_ops.simps exec_op.simps)
  qed
qed

lemma fresh_number:
  assumes "0 \<le> c" and "pre @ format_02d (c + int n) \<in> set (map (\<lambda>k. pre @ format_02d (c + int k)) [0..<n])"
  shows False
proof -
  from assms(2) obtain k where k: "k < n" "format_02d (c + int n) = format_02d (c + int k)"
    by auto
  from assms(1) have "0 \<le> c + int n" "0 \<le> c + int k" by simp_all
  from format_02d_inj[OF this k(2)] k(1) show False by simp
qed

lemma keys_dict_set: "fst ` set (dict_set k v d) = insert k (fst ` set d)"
  by (induction d) force+

lemma keys_exec_op:
  "fst ` set (players (fst (exec_op s x)))
     = fst ` set (players s) \<union> set (allocated_players (snd (exec_op s x)))"
  "fst ` set (referees (fst (exec_op s x)))
     = fst ` set (referees s) \<union> set (allocated_referees (snd (exec_op s x)))"
  by (cases x; simp add: split_def Let_def register_player_def register_referee_def
        update_standings_for_match_def save_standings_def keys_dict_set)+

lemma keys_exec_ops:
  "fst ` set (players (fst (exec_ops s xs)))
     = fst ` set (players s) \<union> set (allocated_players (snd (exec_ops s xs)))
   \<and> fst ` set (referees (fst (exec_ops s xs)))
     = fst ` set (referees s) \<union> set (allocated_referees (snd (exec_ops s xs)))"
proof (induction xs arbitrary: s)
  case Nil
  show ?case by simp
next
  case (Cons x xs)
  from Cons.IH[of "fst (exec_op s x)"] keys_exec_op[of s x] show ?case
    by (simp add: exec_ops_Cons allocated_append Un_assoc del: exec_ops.simps exec_op.simps)
qed

text \<open>
  Claim C7. Registration is not idempotent and never collides identifiers. In every state
  reached from a new league by any sequence of operations, the id that the next
  \<open>register_player\<close> call allocates differs from every player id allocated before and is
  not a key of the players registry; the same holds for \<open>register_referee\<close> and the
  referee ids; so the ids allocated in a run are pairwise distinct per role, whatever the
  arguments of the calls are. Every \<open>register_player\<close> call creates the standings row of
  the new id with \<open>played\<close>, \<open>wins\<close>, \<open>draws\<close>, \<open>losses\<close> and \<open>points\<close> all zero. In particular
  a registration repeated with the same arguments gives a second identity with another id.
\<close>

theorem registration_allocates_fresh_ids:
  "rp_player_id (fst (register_player (fst (exec_ops (LeagueState lid) ops)) name ep ver gts tok))
     \<notin> set (allocated_players (snd (exec_ops (LeagueState lid) ops)))
       \<union> fst ` set (players (fst (exec_ops (LeagueState lid) ops)))
   \<and> rr_referee_id (fst (register_referee (fst (exec_ops (LeagueState lid) ops)) name ep ver gts cap tok))
     \<notin> set (allocated_referees (snd (exec_ops (LeagueState lid) ops)))
       \<union> fst ` set (referees (fst (exec_ops (LeagueState lid) ops)))
   \<and> distinct (allocated_players (snd (exec_ops (LeagueState lid) ops)))
   \<and> distinct (allocated_referees (snd (exec_ops (LeagueState lid) ops)))
   \<and> map_of (standings (snd (register_player s name ep ver gts tok)))
         (rp_player_id (fst (register_player s name ep ver gts tok)))
       = Some \<lparr>ps_player_id = rp_player_id (fst (register_player s name ep ver gts tok)),
           ps_display_name = name, played = 0, wins = 0, draws = 0, losses = 0, points = 0\<rparr>
   \<and> rp_player_id (fst (register_player
          (snd (register_player (fst (exec_ops (LeagueState lid) ops)) name ep ver gts tok))
          name ep ver gts tok))
       \<noteq> rp_player_id (fst (register_player (fst (exec_ops (LeagueState lid) ops)) name ep ver gts tok))
   \<and> rr_referee_id (fst (register_referee
          (snd (register_referee (fst (exec_ops (LeagueState lid) ops)) name ep ver gts cap tok))
          name ep ver gts cap tok))
       \<noteq> rr_referee_id (fst (register_referee (fst (exec_ops (LeagueState lid) ops)) name ep ver gts cap tok))"
proof -
  let ?init = "LeagueState lid"
  let ?s = "fst (exec_ops ?init ops)" and ?al = "snd (exec_ops ?init ops)"
  define ps where "ps = allocated_players ?al"
  define rs where "rs = allocated_referees ?al"
  define np where "np = length ps"
  define nr where "nr = length rs"
  have init: "next_player_num ?init = 1" "next_referee_num ?init = 1"
      "players ?init = []" "referees ?init = []"
    by (simp_all add: LeagueState_def)
  have P: "ps = map (\<lambda>k. ''P'' @ format_02d (1 + int k)) [0..<np]"
      "next_player_num ?s = 1 + int np"
    using allocated_players_exec_ops[of ?init ops] by (simp_all only: init ps_def np_def)
  have R: "rs = map (\<lambda>k. ''REF'' @ format_02d (1 + int k)) [0..<nr]"
      "next_referee_num ?s = 1 + int nr"
    using allocated_referees_exec_ops[of ?init ops] by (simp_all only: init rs_def nr_def)
  have keys: "fst ` set (players ?s) = set ps" "fst ` set (referees ?s) = set rs"
    using keys_exec_ops[of ?init ops] by (simp_all add: init ps_def rs_def)
  have pid: "rp_player_id (fst (register_player ?s name ep ver gts tok))
      = ''P'' @ format_02d (1 + int np)"
    by (simp add: register_player_def Let_def P(2))
  have rid: "rr_referee_id (fst (register_referee ?s name ep ver gts cap tok))
      = ''REF'' @ format_02d (1 + int nr)"
    by (simp add: register_referee_def Let_def R(2))
  have fresh_p: "''P'' @ format_02d (1 + int np) \<notin> set ps"
    using fresh_number[of 1 "''P''" np] by (subst P(1)) auto
  have fresh_r: "''REF'' @ format_02d (1 + int nr) \<notin> set rs"
    using fresh_number[of 1 "''REF''" nr] by (subst R(1)) auto
  have inj: "inj_on (\<lambda>k. pre @ format_02d (1 + int k)) A" for pre and A :: "nat set"
  proof (rule inj_onI)
    fix x y :: nat
    assume "pre @ format_02d (1 + int x) = pre @ format_02d (1 + int y)"
    then have "format_02d (1 + int x) = format_02d (1 + int y)" by simp
    from format_02d_inj[OF _ _ this] show "x = y" by simp
  qed
  have dp: "distinct ps"
    using inj[of "''P''" "{0..<np}"] by (subst P(1)) (simp add: distinct_map)
  have dr: "distinct rs"
    using inj[of "''REF''" "{0..<nr}"] by (subst R(1)) (simp add: distinct_map)
  have row: "map_of (standings (snd (register_player s name ep ver gts tok)))
         (rp_player_id (fst (register_player s name ep ver gts tok)))
       = Some \<lparr>ps_player_id = rp_player_id (fst (register_player s name ep ver gts tok)),
           ps_display_name = name, played = 0, wins = 0, draws = 0, losses = 0, points = 0\<rparr>"
    by (simp add: register_player_def Let_def map_of_dict_set PlayerStanding_def)
  have pid2: "rp_player_id (fst (register_player (snd (register_player ?s name ep ver gts tok))
        name ep ver gts tok)) = ''P'' @ format_02d (1 + int np + 1)"
    by (simp add: register_player_def Let_def P(2))
  have rid2: "rr_referee_id (fst (register_referee (snd (register_referee ?s name ep ver gts cap tok))
        name ep ver gts cap tok)) = ''REF'' @ format_02d (1 + int nr + 1)"
    by (simp add: register_referee_def Let_def R(2))
  have again: "pre @ format_02d (1 + int n + 1) \<noteq> pre @ format_02d (1 + int n)" for pre n
  proof
    assume "pre @ format_02d (1 + int n + 1) = pre @ format_02d (1 + int n)"
    then have "format_02d (1 + int n + 1) = format_02d (1 + int n)" by simp
    from format_02d_inj[OF _ _ this] show False by simp
  qed
  from fresh_p fresh_r dp dr row again[of "''P''" np] again[of "''REF''" nr] show ?thesis
    unfolding pid rid pid2 rid2 keys ps_def[symmetric] rs_def[symmetric] by simp
qed

lemma sorted_standings_props:
  "sorted (map ranking_key (sorted_standings s))"
  "mset (sorted_standings s) = mset (map snd (standings s))"
  "length (sorted_standings s) = length (standings s)"
  by (simp_all add: sorted_standings_def)

lemma to_dict_fields:
  "json_field (to_dict st r) ''rank'' = Some (JNum r)"
  "num_field (to_dict st r) ''points'' = Some (points st)"
  "num_field (to_dict st r) ''wins'' = Some (wins st)"
  "num_field (to_dict st r) ''draws'' = Some (draws st)"
  "row_standing (to_dict st r) = Some st"
  by (simp_all add: to_dict_def json_field_def num_field_def str_field_def row_standing_def)

lemma get_ranked_standings_nth:
  "i < length (standings s) \<Longrightarrow>
     get_ranked_standings s ! i = to_dict (sorted_standings s ! i) (int i + 1)"
  by (simp add: get_ranked_standings_def sorted_standings_props nth_enumerate_eq)

lemma get_ranked_standings_rows:
  "map row_standing (get_ranked_standings s) = map Some (sorted_standings s)"
  by (rule nth_equalityI)
     (simp_all add: get_ranked_standings_def sorted_standings_props nth_enumerate_eq to_dict_fields)

text \<open>
  Claim C8. For every standings map, \<open>get_ranked_standings\<close> returns one row per player.
  Read back, the rows are exactly the standings of the map, each once, rearranged. The
  \<open>rank\<close> field of the row at position \<open>i\<close> (from 0) is \<open>i + 1\<close>, so the ranks are exactly
  \<open>1..n\<close> in output order. And for any two rows, the earlier one before the later one in
  the output, the \<open>points\<close> field of the later row is at most that of the earlier row; when
  the two are equal, the same holds of the \<open>wins\<close> fields; and when those are equal too, of
  the \<open>draws\<close> fields.
\<close>

theorem get_ranked_standings_ranked:
  "length (get_ranked_standings s) = length (standings s)
   \<and> mset (map row_standing (get_ranked_standings s)) = mset (map (\<lambda>(pid, st). Some st) (standings s))
   \<and> (\<forall>i < length (standings s).
         json_field (get_ranked_standings s ! i) ''rank'' = Some (JNum (int i + 1)))
   \<and> (\<forall>i j. i \<le> j \<and> j < length (standings s) \<longrightarrow>
         (\<exists>p_i w_i d_i p_j w_j d_j.
            num_field (get_ranked_standings s ! i) ''points'' = Some p_i
          \<and> num_field (get_ranked_standings s ! i) ''wins'' = Some w_i
          \<and> num_field (get_ranked_standings s ! i) ''draws'' = Some d_i
          \<and> num_field (get_ranked_standings s ! j) ''points'' = Some p_j
          \<and> num_field (get_ranked_standings s ! j) ''wins'' = Some w_j
          \<and> num_field (get_ranked_standings s ! j) ''draws'' = Some d_j
          \<and> p_j \<le> p_i
          \<and> (p_j = p_i \<longrightarrow> w_j \<le> w_i \<and> (w_j = w_i \<longrightarrow> d_j \<le> d_i))))"
proof (intro conjI allI impI)
  show "length (get_ranked_standings s) = length (standings s)"
    by (simp add: get_ranked_standings_def sorted_standings_props)
  have "mset (map row_standing (get_ranked_standings s)) = image_mset Some (mset (sorted_standings s))"
    by (simp add: get_ranked_standings_rows)
  also have "\<dots> = image_mset Some (mset (map snd (standings s)))"
    by (simp only: sorted_standings_props)
  also have "\<dots> = mset (map (\<lambda>(pid, st). Some st) (standings s))"
    by (simp add: image_mset.compositionality comp_def split_def)
  finally show "mset (map row_standing (get_ranked_standings s))
      = mset (map (\<lambda>(pid, st). Some st) (standings s))" .
next
  fix i assume i: "i < length (standings s)"
  then show "json_field (get_ranked_standings s ! i) ''rank'' = Some (JNum (int i + 1))"
    by (simp add: get_ranked_standings_nth to_dict_fields)
next
  fix i j assume ij: "i \<le> j \<and> j < length (standings s)"
  then have "ranking_key (sorted_standings s ! i) \<le> ranking_key (sorted_standings s ! j)"
    using sorted_standings_props(1)[of s] sorted_nth_mono[of "map ranking_key (sorted_standings s)" i j]
    by (simp add: sorted_standings_props(3))
  then have key: "points (sorted_standings s ! j) < points (sorted_standings s ! i)
      \<or> points (sorted_standings s ! j) = points (sorted_standings s ! i)
        \<and> (wins (sorted_standings s ! j) < wins (sorted_standings s ! i)
          \<or> wins (sorted_standings s ! j) = wins (sorted_standings s ! i)
            \<and> draws (sorted_standings s ! j) \<le> draws (sorted_standings s ! i))"
    by (auto simp: ranking_key_def less_eq_prod_def)
  from ij have rows: "get_ranked_standings s ! i = to_dict (sorted_standings s ! i) (int i + 1)"
      "get_ranked_standings s ! j = to_dict (sorted_standings s ! j) (int j + 1)"
    by (simp_all add: get_ranked_standings_nth)
  from key show "\<exists>p_i w_i d_i p_j w_j d_j.
            num_field (get_ranked_standings s ! i) ''points'' = Some p_i
          \<and> num_field (get_ranked_standings s ! i) ''wins'' = Some w_i
          \<and> num_field (get_ranked_standings s ! i) ''draws'' = Some d_i
          \<and> num_field (get_ranked_standings s ! j) ''points'' = Some p_j
          \<and> num_field (get_ranked_standings s ! j) ''wins'' = Some w_j
          \<and> num_field (get_ranked_standings s ! j) ''draws'' = Some d_j
          \<and> p_j \<le> p_i
          \<and> (p_j = p_i \<longrightarrow> w_j \<le> w_i \<and> (w_j = w_i \<longrightarrow> d_j \<le> d_i))"
    unfolding rows to_dict_fields by auto
qed

lemma league_example_ranked:
  "get_ranked_standings (fst (exec_ops (LeagueState ''L'') league_example))
     = [JObj [(''rank'', JNum 1), (''player_id'', JStr ''P02''), (''display_name'', JStr ''Bob''),
              (''played'', JNum 2), (''wins'', JNum 1), (''draws'', JNum 1), (''losses'', JNum 0),
              (''points'', JNum 4)],
        JObj [(''rank'', JNum 2), (''player_id'', JStr ''P01''), (''display_name'', JStr ''Ann''),
              (''played'', JNum 2), (''wins'', JNum 0), (''draws'', JNum 1), (''losses'', JNum 1),
              (''points'', JNum 1)]]"
  by code_simp

theorem get_ranked_standings_ranked_witness:
  "(0::nat) \<le> 1 \<and> 1 < length (standings (fst (exec_ops (LeagueState ''L'') league_example)))
   \<and> json_field (get_ranked_standings (fst (exec_ops (LeagueState ''L'') league_example)) ! 1) ''rank''
       = Some (JNum 2)
   \<and> num_field (get_ranked_standings (fst (exec_ops (LeagueState ''L'') league_example)) ! 0) ''points''
       = Some 4
   \<and> num_field (get_ranked_standings (fst (exec_ops (LeagueState ''L'') league_example)) ! 1) ''points''
       = Some 1
   \<and> (\<exists>p_i p_j.
        num_field (get_ranked_standings (fst (exec_ops (LeagueState ''L'') league_example)) ! 0) ''points''
          = Some p_i
      \<and> num_field (get_ranked_standings (fst (exec_ops (LeagueState ''L'') league_example)) ! 1) ''points''
          = Some p_j
      \<and> p_j \<le> p_i)"
proof -
  let ?s = "fst (exec_ops (LeagueState ''L'') league_example)"
  have len: "(0::nat) \<le> 1 \<and> 1 < length (standings ?s)"
    by (simp add: league_example_standings)
  note ranked = get_ranked_standings_ranked [of ?s]
  from ranked len have "json_field (get_ranked_standings ?s ! 1) ''rank'' = Some (JNum (int 1 + 1))"
    by blast
  moreover from ranked len
  have "\<exists>p_i p_j. num_field (get_ranked_standings ?s ! 0) ''points'' = Some p_i
      \<and> num_field (get_ranked_standings ?s ! 1) ''points'' = Some p_j \<and> p_j \<le> p_i"
    by blast
  moreover have "num_field (get_ranked_standings ?s ! 0) ''points'' = Some 4"
      "num_field (get_ranked_standings ?s ! 1) ''points'' = Some 1"
    by (simp_all add: league_example_ranked num_field_def json_field_def)
  ultimately show ?thesis using len by simp
qed

lemma league_example_allocated:
  "allocated_players (snd (exec_ops (LeagueState ''L'') league_example)) = [''P01'', ''P02'']"
  by code_simp

theorem registration_allocates_fresh_ids_witness:
  "rp_player_id (fst (register_player (fst (exec_ops (LeagueState ''L'') league_example))
      ''Ann'' ''http://localhost:8101/mcp'' ''1.0.0'' None ''tok-a'')) \<notin> set [''P01'', ''P02'']
   \<and> distinct [''P01'', ''P02'']"
  using registration_allocates_fresh_ids [of "''L''" league_example "''Ann''"
      "''http://localhost:8101/mcp''" "''1.0.0''" None "''tok-a''"]
  by (simp add: league_example_allocated)

section \<open>League Manager handlers\<close>

lemma report_loop_not_found:
  "\<forall>m \<in> set ms. JStr (match_id m) \<noteq> mid \<Longrightarrow>
     report_loop s ms i mid rnd res t_standings t_match = s"
  by (induction ms arbitrary: i) simp_all

text \<open>
  Claim C10. When \<open>handle_report_match_result\<close> receives a report whose match id does not
  occur in the schedule, the league state is completely unchanged: no standings row, no
  match of the schedule and no persisted document changes. For a report whose result is an
  object (or absent) the handler still returns the success acknowledgement with status
  RECORDED, and its only effect is the log entry of the reception.
\<close>

theorem unknown_match_report_changes_nothing:
  assumes "\<forall>m \<in> set (schedule s). JStr (match_id m) \<noteq> dict_get params ''match_id''"
  shows "fst (snd (handle_report_match_result s params req_id t_standings t_match t_ack)) = s
       \<and> (\<forall>rfields. dict_get_default params ''result'' (JObj []) = JObj rfields \<longrightarrow>
            handle_report_match_result s params req_id t_standings t_match t_ack
              = (Inr (match_result_ack params (dict_get params ''match_id'') req_id t_ack), s,
                 [Logged ''INFO'' ''MATCH_RESULT_RECEIVED''
                    [(''match_id'', dict_get params ''match_id''),
                     (''winner'', dict_get rfields ''winner'')]])
          \<and> (case json_field (match_result_ack params (dict_get params ''match_id'') req_id t_ack)
                     ''result'' of
                Some ack \<Rightarrow> json_field ack ''status'' | None \<Rightarrow> None) = Some (JStr ''RECORDED''))"
  using assms
  by (auto simp: handle_report_match_result_def Let_def report_loop_not_found
      match_result_ack_def json_field_def split: json.splits)

theorem unknown_match_report_changes_nothing_witness:
  "map match_id (schedule scheduled_league) = [''R1M1'']
   \<and> dict_get unknown_match_report ''match_id'' = JStr ''R9M9''
   \<and> fst (snd (handle_report_match_result scheduled_league unknown_match_report 7 ''t1'' ''t2'' ''t3''))
       = scheduled_league
   \<and> fst (handle_report_match_result scheduled_league unknown_match_report 7 ''t1'' ''t2'' ''t3'')
       = Inr (match_result_ack unknown_match_report (JStr ''R9M9'') 7 ''t3'')"
proof -
  have sch: "schedule scheduled_league = create_round_robin_schedule [''P01'', ''P02'']"
    by (simp add: scheduled_league_def)
  have h: "\<forall>m \<in> set (schedule scheduled_league).
      JStr (match_id m) \<noteq> dict_get unknown_match_report ''match_id''"
    by (simp add: sch create_round_robin_schedule_def Match_def Let_def unknown_match_report_def
        dict_get_def str_int_def digit_char_def)
  have r: "dict_get_default unknown_match_report ''result'' (JObj []) = JObj [(''winner'', JStr ''P01'')]"
      "dict_get unknown_match_report ''match_id'' = JStr ''R9M9''"
    by (simp_all add: unknown_match_report_def dict_get_default_def dict_get_def)
  have ids: "map match_id (schedule scheduled_league) = [''R1M1'']"
    by (simp add: sch create_round_robin_schedule_def Match_def Let_def str_int_def digit_char_def)
  from unknown_match_report_changes_nothing [OF h, of 7 "''t1''" "''t2''" "''t3''"] r ids
  show ?thesis
    by simp
qed

section \<open>Referee\<close>

lemma then_do_simps:
  "then_do (return x) f h = f x h"
  "then_do (raise e) f h = (Inl e, h, [])"
  "then_do (log level ev details) g h =
     (case g () h of (y, h2, effs2) \<Rightarrow> (y, h2, Logged level ev details # effs2))"
  "then_do (modify f') g h = g () (h\<lparr>rh_state := f' (rh_state h)\<rparr>)"
  by (simp_all add: then_do_def return_def raise_def log_def modify_def split: prod.splits)

lemma client_call_run:
  assumes "call (rh_client h) net = ((Inr r, evs), c')"
  shows "then_do (client_call ep name params t net) k h =
     (case k r (h\<lparr>rh_client := c'\<rparr>) of (y, h2, effs2) \<Rightarrow>
        (y, h2, Called ep name params t # map (post_effect ep name (request_id c')) evs @ effs2))"
  using assms by (simp add: then_do_def client_call_def split: prod.splits)

lemma send_game_invitation_run:
  assumes "call (rh_client h) net = ((Inr r, evs), c')"
  shows "then_do (send_game_invitation ep mid rnd p opp role conv ts net) k h =
     (case k r (h\<lparr>rh_client := c'\<rparr>) of (y, h2, effs2) \<Rightarrow>
        (y, h2,
         Logged ''INFO'' ''MCP_SENT''
           [(''message_type'', JStr ''GAME_INVITATION''), (''endpoint'', JStr ep),
            (''player_id'', JStr p)]
         # Called ep ''handle_game_invitation''
             (invitation_params (rh_state h) mid rnd opp role conv ts) 5
         # map (post_effect ep ''handle_game_invitation'' (request_id c')) evs @ effs2))"
  using assms
  by (simp add: then_do_def send_game_invitation_def log_def client_call_def split: prod.splits)

lemma calls_to_append: "calls_to name (xs @ ys) = calls_to name xs @ calls_to name ys"
  by (induction name xs rule: calls_to.induct) simp_all

lemma http_traffic_append: "http_traffic (xs @ ys) = http_traffic xs @ http_traffic ys"
  by (induction xs rule: http_traffic.induct) simp_all

lemma calls_to_posts: "calls_to name (map (post_effect ep m rid) evs) = []"
  by (induction evs) (simp_all add: post_effect_def split: client_event.splits)

lemma http_traffic_posts:
  "http_traffic (map (post_effect ep m rid) evs) = map (post_effect ep m rid) evs"
  by (induction evs) (simp_all add: post_effect_def split: client_event.splits)

lemma check_join_ack_failure:
  assumes "join_failure r mid"
  shows "\<exists>effs. check_join_ack r p mid h = (Inr False, h, effs)
           \<and> (\<forall>m. calls_to m effs = []) \<and> http_traffic effs = []"
  using assms
  by (auto simp: join_failure_def check_join_ack_def then_do_simps return_def
      split: option.splits json.splits)

lemma check_join_ack_accepted:
  assumes "join_accepted r mid"
  shows "check_join_ack r p mid h
           = (Inr True, h\<lparr>rh_state := snd (player_joined (rh_state h) mid p)\<rparr>, [])"
  using assms
  by (auto simp: join_accepted_def check_join_ack_def then_do_simps return_def
      split: option.splits json.splits)

lemma handle_technical_loss_run:
  assumes "call (rh_client h) net = ((Inr rr, evs), c')"
  shows "fst (handle_technical_loss m wn reason ts net h) =
           Inr (JObj [(''match_id'', JStr (am_match_id m)), (''winner'', JStr wn),
                      (''result'', JObj (technical_loss_result wn reason))])"
    and "snd (snd (handle_technical_loss m wn reason ts net h)) =
      [Logged ''WARNING'' ''TECHNICAL_LOSS''
         [(''match_id'', JStr (am_match_id m)), (''winner'', JStr wn), (''reason'', JStr reason)],
       Logged ''INFO'' ''MCP_SENT''
         [(''message_type'', JStr ''MATCH_RESULT_REPORT''),
          (''endpoint'', JStr (league_endpoint (rh_state h)))],
       Called (league_endpoint (rh_state h)) ''report_match_result''
         (report_params (set_in_match (rh_state h) (am_match_id m)
              (\<lambda>m. m\<lparr>am_winner := Some wn, am_state := FINISHED\<rparr>))
            (am_match_id m) (am_round_id m) (JStr wn)
            (dict_set wn 3 (dict_set (am_player_b_id m) 0 (dict_set (am_player_a_id m) 0 [])))
            (technical_loss_result wn reason) ts)
         10]
      @ map (post_effect (league_endpoint (rh_state h)) ''report_match_result'' (request_id c')) evs"
  using assms
  by (simp_all add: handle_technical_loss_def report_match_result_def then_do_def log_def
      modify_def client_call_def return_def Let_def set_in_match_def)

lemma report_params_result:
  "dict_get (report_params st mid rnd wn scores (technical_loss_result w reason) ts) ''result''
     = JObj [(''winner'', wn), (''score'', score_json scores),
             (''details'', JObj [(''drawn_number'', JNum 0), (''choices'', JObj [])])]"
  by (simp add: report_params_def technical_loss_result_def dict_get_def)

lemma create_match_fields:
  assumes "create_match st mid rnd a b ea eb conv = (m, st1)"
  shows "am_match_id m = mid" "am_round_id m = rnd" "am_player_a_id m = a" "am_player_b_id m = b"
  using assms by (auto simp: create_match_def Let_def)

lemma report_params_cong:
  assumes "rs_referee_id st' = rs_referee_id st" and "rs_auth_token st' = rs_auth_token st"
      and "rs_league_id st' = rs_league_id st"
  shows "report_params st' mid rnd wn scores game_result ts
           = report_params st mid rnd wn scores game_result ts"
  using assms by (simp add: report_params_def)

lemma set_in_match_fields:
  "rs_referee_id (set_in_match st mid f) = rs_referee_id st"
  "rs_auth_token (set_in_match st mid f) = rs_auth_token st"
  "rs_league_id (set_in_match st mid f) = rs_league_id st"
  "league_endpoint (set_in_match st mid f) = league_endpoint st"
  by (simp_all add: set_in_match_def)

lemma player_joined_fields:
  "rs_referee_id (snd (player_joined st mid p)) = rs_referee_id st"
  "rs_auth_token (snd (player_joined st mid p)) = rs_auth_token st"
  "rs_league_id (snd (player_joined st mid p)) = rs_league_id st"
  "league_endpoint (snd (player_joined st mid p)) = league_endpoint st"
  by (simp_all add: player_joined_def Let_def set_in_match_fields split: option.splits)

lemma create_match_state_fields:
  assumes "create_match st mid rnd a b ea eb conv = (m, st1)"
  shows "rs_referee_id st1 = rs_referee_id st" "rs_auth_token st1 = rs_auth_token st"
    "rs_league_id st1 = rs_league_id st" "league_endpoint st1 = league_endpoint st"
  using assms by (auto simp: create_match_def Let_def)

text \<open>The first steps of \<open>run_match\<close>, when both invitation calls return.\<close>

lemma run_match_invitations:
  assumes "call (rh_client h) (invite_a_net w) = ((Inr ra, evs_a), c1)"
      and "call c1 (invite_b_net w) = ((Inr rb, evs_b), c2)"
      and "create_match (rh_state h) mid rnd a b ea eb (''conv-'' @ mid @ ''-'' @ uuid_hex w) = (m, st1)"
      and "then_do (check_join_ack ra a mid)
             (\<lambda>joined_a.
                if \<not> joined_a
                then handle_technical_loss m b ''Player A failed to join'' (clock w 8) (report_net w)
                else then_do (check_join_ack rb b mid)
                  (\<lambda>joined_b.
                     if \<not> joined_b
                     then handle_technical_loss m a ''Player B failed to join'' (clock w 8)
                            (report_net w)
                     else collect_choices w m)) (h\<lparr>rh_state := st1, rh_client := c2\<rparr>)
           = (y, h2, effs)"
  shows "run_match w mid rnd a b ea eb h =
     (y, h2,
      [Logged ''INFO'' ''MATCH_START''
         [(''match_id'', JStr mid), (''player_a'', JStr a), (''player_b'', JStr b)],
       Logged ''INFO'' ''MCP_SENT''
         [(''message_type'', JStr ''GAME_INVITATION''), (''endpoint'', JStr ea),
          (''player_id'', JStr a)],
       Called ea ''handle_game_invitation''
         (invitation_params st1 mid rnd b ''PLAYER_A'' (''conv-'' @ mid @ ''-'' @ uuid_hex w) (clock w 0)) 5]
      @ map (post_effect ea ''handle_game_invitation'' (request_id c1)) evs_a
      @ [Logged ''INFO'' ''MCP_SENT''
         [(''message_type'', JStr ''GAME_INVITATION''), (''endpoint'', JStr eb),
          (''player_id'', JStr b)],
       Called eb ''handle_game_invitation''
         (invitation_params st1 mid rnd a ''PLAYER_B'' (''conv-'' @ mid @ ''-'' @ uuid_hex w) (clock w 1)) 5]
      @ map (post_effect eb ''handle_game_invitation'' (request_id c2)) evs_b
      @ effs)"
proof -
  have start: "then_do (state_create_match mid rnd a b ea eb (''conv-'' @ mid @ ''-'' @ uuid_hex w)) k h
      = k m (h\<lparr>rh_state := st1\<rparr>)" for k :: "active_match \<Rightarrow> json action"
    using assms(3) by (simp add: then_do_def state_create_match_def split: prod.splits)
  have ia: "call (rh_client (h\<lparr>rh_state := st1\<rparr>)) (invite_a_net w) = ((Inr ra, evs_a), c1)"
    using assms(1) by simp
  have ib: "call (rh_client (h\<lparr>rh_state := st1, rh_client := c1\<rparr>)) (invite_b_net w)
      = ((Inr rb, evs_b), c2)"
    using assms(2) by simp
  show ?thesis
    unfolding run_match_def Let_def start
    using assms(4)
    by (simp add: then_do_simps send_game_invitation_run[OF ia] send_game_invitation_run[OF ib])
qed

text \<open>What a run that ends in a technical loss after the invitations looks like.\<close>

lemma run_match_technical_loss:
  assumes "call (rh_client h) (invite_a_net w) = ((Inr ra, evs_a), c1)"
      and "call c1 (invite_b_net w) = ((Inr rb, evs_b), c2)"
      and "call c2 (report_net w) = ((Inr rr, evs_r), c3)"
      and "create_match (rh_state h) mid rnd a b ea eb (''conv-'' @ mid @ ''-'' @ uuid_hex w) = (m, st1)"
      and "then_do (check_join_ack ra a mid)
             (\<lambda>joined_a.
                if \<not> joined_a
                then handle_technical_loss m b ''Player A failed to join'' (clock w 8) (report_net w)
                else then_do (check_join_ack rb b mid)
                  (\<lambda>joined_b.
                     if \<not> joined_b
                     then handle_technical_loss m a ''Player B failed to join'' (clock w 8)
                            (report_net w)
                     else collect_choices w m)) (h\<lparr>rh_state := st1, rh_client := c2\<rparr>)
           = (case handle_technical_loss m wn reason (clock w 8) (report_net w) h3 of
                (y, h2, effs2) \<Rightarrow> (y, h2, effs @ effs2))"
      and "\<forall>k. calls_to k effs = []" and "http_traffic effs = []"
      and "rh_client h3 = c2"
      and "rs_referee_id (rh_state h3) = rs_referee_id (rh_state h)"
      and "rs_auth_token (rh_state h3) = rs_auth_token (rh_state h)"
      and "rs_league_id (rh_state h3) = rs_league_id (rh_state h)"
      and "league_endpoint (rh_state h3) = league_endpoint (rh_state h)"
  shows "fst (run_match w mid rnd a b ea eb h)
           = Inr (JObj [(''match_id'', JStr mid), (''winner'', JStr wn),
                        (''result'', JObj (technical_loss_result wn reason))])
       \<and> calls_to ''report_match_result'' (snd (snd (run_match w mid rnd a b ea eb h)))
           = [(league_endpoint (rh_state h),
               report_params (rh_state h) mid rnd (JStr wn)
                 (dict_set wn 3 (dict_set b 0 (dict_set a 0 [])))
                 (technical_loss_result wn reason) (clock w 8))]
       \<and> map fst (calls_to ''handle_game_invitation'' (snd (snd (run_match w mid rnd a b ea eb h))))
           = [ea, eb]
       \<and> calls_to ''choose_parity'' (snd (snd (run_match w mid rnd a b ea eb h))) = []
       \<and> http_traffic (snd (snd (run_match w mid rnd a b ea eb h)))
           = map (post_effect ea ''handle_game_invitation'' (request_id c1)) evs_a
             @ map (post_effect eb ''handle_game_invitation'' (request_id c2)) evs_b
             @ map (post_effect (league_endpoint (rh_state h)) ''report_match_result''
                      (request_id c3)) evs_r"
proof -
  note m = create_match_fields[OF assms(4)]
  have cr: "call (rh_client h3) (report_net w) = ((Inr rr, evs_r), c3)"
    using assms(3,8) by simp
  note tl = handle_technical_loss_run[OF cr, of m wn reason "clock w 8"]
  obtain y h2 effs' where k: "then_do (check_join_ack ra a mid)
             (\<lambda>joined_a.
                if \<not> joined_a
                then handle_technical_loss m b ''Player A failed to join'' (clock w 8) (report_net w)
                else then_do (check_join_ack rb b mid)
                  (\<lambda>joined_b.
                     if \<not> joined_b
                     then handle_technical_loss m a ''Player B failed to join'' (clock w 8)
                            (report_net w)
                     else collect_choices w m)) (h\<lparr>rh_state := st1, rh_client := c2\<rparr>)
           = (y, h2, effs')"
    by (metis prod_cases3)
  with assms(5) have y: "y = fst (handle_technical_loss m wn reason (clock w 8) (report_net w) h3)"
    and effs': "effs' = effs @ snd (snd (handle_technical_loss m wn reason (clock w 8) (report_net w) h3))"
    by (simp_all add: split_def)
  have rp: "report_params (set_in_match (rh_state h3) mid f) mid rnd wn' scores game_result ts
      = report_params (rh_state h) mid rnd wn' scores game_result ts" for f wn' scores game_result ts
    by (rule report_params_cong) (simp_all add: set_in_match_fields assms(9,10,11))
  from run_match_invitations[OF assms(1,2,4) k]
  show ?thesis
    using assms(6,7,12)
    by (simp add: y effs' tl calls_to_append http_traffic_append calls_to_posts
        http_traffic_posts m rp)
qed

text \<open>The same with the two ways a join can fail put together.\<close>

lemma run_match_failed_join:
  assumes "call (rh_client h) (invite_a_net w) = ((Inr ra, evs_a), c1)"
      and "call c1 (invite_b_net w) = ((Inr rb, evs_b), c2)"
      and "call c2 (report_net w) = ((Inr rr, evs_r), c3)"
      and "join_failure ra mid \<and> wn = b \<and> reason = ''Player A failed to join''
         \<or> join_accepted ra mid \<and> join_failure rb mid \<and> wn = a
             \<and> reason = ''Player B failed to join''"
  shows "fst (run_match w mid rnd a b ea eb h)
           = Inr (JObj [(''match_id'', JStr mid), (''winner'', JStr wn),
                        (''result'', JObj (technical_loss_result wn reason))])
       \<and> calls_to ''report_match_result'' (snd (snd (run_match w mid rnd a b ea eb h)))
           = [(league_endpoint (rh_state h),
               report_params (rh_state h) mid rnd (JStr wn)
                 (dict_set wn 3 (dict_set b 0 (dict_set a 0 [])))
                 (technical_loss_result wn reason) (clock w 8))]
       \<and> map fst (calls_to ''handle_game_invitation'' (snd (snd (run_match w mid rnd a b ea eb h))))
           = [ea, eb]
       \<and> calls_to ''choose_parity'' (snd (snd (run_match w mid rnd a b ea eb h))) = []
       \<and> http_traffic (snd (snd (run_match w mid rnd a b ea eb h)))
           = map (post_effect ea ''handle_game_invitation'' (request_id c1)) evs_a
             @ map (post_effect eb ''handle_game_invitation'' (request_id c2)) evs_b
             @ map (post_effect (league_endpoint (rh_state h)) ''report_match_result''
                      (request_id c3)) evs_r"
proof -
  obtain m st1 where cm:
    "create_match (rh_state h) mid rnd a b ea eb (''conv-'' @ mid @ ''-'' @ uuid_hex w) = (m, st1)"
    by (cases "create_match (rh_state h) mid rnd a b ea eb (''conv-'' @ mid @ ''-'' @ uuid_hex w)")
  let ?h1 = "h\<lparr>rh_state := st1, rh_client := c2\<rparr>"
  let ?steps = "then_do (check_join_ack ra a mid)
             (\<lambda>joined_a.
                if \<not> joined_a
                then handle_technical_loss m b ''Player A failed to join'' (clock w 8) (report_net w)
                else then_do (check_join_ack rb b mid)
                  (\<lambda>joined_b.
                     if \<not> joined_b
                     then handle_technical_loss m a ''Player B failed to join'' (clock w 8)
                            (report_net w)
                     else collect_choices w m))"
  from assms(4) show ?thesis
  proof (elim disjE conjE)
    assume fa: "join_failure ra mid" and wn: "wn = b" "reason = ''Player A failed to join''"
    from check_join_ack_failure[OF fa, of a ?h1]
    obtain effs where ck: "check_join_ack ra a mid ?h1 = (Inr False, ?h1, effs)"
        and noc: "\<forall>k. calls_to k effs = []" and not: "http_traffic effs = []"
      by blast
    have "?steps ?h1
           = (case handle_technical_loss m wn reason (clock w 8) (report_net w) ?h1 of
                (y, h2, effs2) \<Rightarrow> (y, h2, effs @ effs2))"
      using ck wn by (simp add: then_do_def)
    from run_match_technical_loss[OF assms(1,2,3) cm this noc not]
    show ?thesis by (simp add: create_match_state_fields[OF cm])
  next
    assume acc: "join_accepted ra mid" and fb: "join_failure rb mid"
      and wn: "wn = a" "reason = ''Player B failed to join''"
    let ?h2 = "?h1\<lparr>rh_state := snd (player_joined (rh_state ?h1) mid a)\<rparr>"
    from acc have cka: "check_join_ack ra a mid ?h1 = (Inr True, ?h2, [])"
      by (simp add: check_join_ack_accepted)
    from check_join_ack_failure[OF fb, of b ?h2]
    obtain effs where ck: "check_join_ack rb b mid ?h2 = (Inr False, ?h2, effs)"
        and noc: "\<forall>k. calls_to k effs = []" and not: "http_traffic effs = []"
      by blast
    have "?steps ?h1
           = (case handle_technical_loss m wn reason (clock w 8) (report_net w) ?h2 of
                (y, h2, effs2) \<Rightarrow> (y, h2, effs @ effs2))"
      using cka ck wn by (simp add: then_do_def)
    from run_match_technical_loss[OF assms(1,2,3) cm this noc not]
    show ?thesis by (simp add: player_joined_fields create_match_state_fields[OF cm])
  qed
qed

lemma transport_error_is_join_failure:
  "join_failure (retries_exhausted_response le rid) mid"
  "join_failure (http_error_response e rid) mid"
  by (simp_all add: join_failure_def retries_exhausted_response_def http_error_response_def)

lemma reported_fields:
  assumes "calls_to ''report_match_result'' effs
             = [(ep, report_params st mid rnd (JStr wn) (dict_set wn 3 (dict_set b 0 (dict_set a 0 [])))
                       (technical_loss_result wn reason) ts)]"
      and "a \<noteq> b" and "wn = a \<or> wn = b"
  shows "reported_winner effs = [Some (JStr wn)]"
    and "reported_score effs wn = [Some (JNum 3)]"
    and "reported_score effs (if wn = a then b else a) = [Some (JNum 0)]"
    and "reported_status effs = [None]"
  using assms
  by (auto simp: reported_winner_def reported_score_def reported_status_def reported_results_def
      report_params_result score_json_def json_field_def)

text \<open>The calls of the transport client in the example worlds.\<close>

lemma example_calls:
  "call (MCPClient None) always_times_out
     = ((Inr (retries_exhausted_response (Some ''Read timed out.'') 1),
         [Post 0, Sleep 2, Post 1, Sleep 4, Post 2]),
        \<lparr>retry_config = RetryConfig, request_id = 1\<rparr>)"
  "call \<lparr>retry_config = RetryConfig, request_id = n\<rparr> always_times_out
     = ((Inr (retries_exhausted_response (Some ''Read timed out.'') (n + 1)),
         [Post 0, Sleep 2, Post 1, Sleep 4, Post 2]),
        \<lparr>retry_config = RetryConfig, request_id = n + 1\<rparr>)"
  "call \<lparr>retry_config = RetryConfig, request_id = n\<rparr> (answers body)
     = ((Inr body, [Post 0]), \<lparr>retry_config = RetryConfig, request_id = n + 1\<rparr>)"
  "call (MCPClient None) (answers body)
     = ((Inr body, [Post 0]), \<lparr>retry_config = RetryConfig, request_id = 1\<rparr>)"
  by (simp_all add: call_def MCPClient_def RetryConfig_def always_times_out_def answers_def
      call_loop.simps raises_for_status_def calculate_delay_def)

text \<open>
  Claim C6, as the code has it. Take a match between two different players in which the
  transport client's calls for the two invitations and for the report return. When one
  player fails to join, that is, the answer to the invitation is an error response (the
  transport client's own after a transport error, or the player's) or its result is
  absent or an object that has no true \<open>accept\<close> or names another match, the referee
  resolves the match as a technical loss for the opponent. The value \<open>run_match\<close> returns has status
  TECHNICAL_LOSS and the opponent as winner. The one report to the League Manager names
  the opponent as winner and gives the score 0 to the player who did not join and 3 to
  the opponent; it has no status field. The referee calls the transport client once for
  each invitation and asks for no choice; the posts and sleeps on the network are those
  of the three calls of the transport client, which itself posts an invitation again
  after a timeout or a connection failure: with \<open>max_retries = 3\<close>, \<open>base_delay = 2\<close>,
  \<open>backoff_multiplier = 2\<close>, an invitation whose every attempt times out is posted three
  times, with sleeps of 2 and 4 seconds, and its player has failed to join. So has a
  player whose invitation ends in the transport client's retries-exhausted or HTTP
  error. Player A's answer is examined first, player B's when A has joined.
\<close>

theorem failed_join_is_technical_loss:
  assumes "a \<noteq> b"
      and "call (rh_client h) (invite_a_net w) = ((Inr ra, evs_a), c1)"
      and "call c1 (invite_b_net w) = ((Inr rb, evs_b), c2)"
      and "call c2 (report_net w) = ((Inr rr, evs_r), c3)"
      and "join_failure ra mid \<and> absent = a \<and> opponent = b \<and> reason = ''Player A failed to join''
         \<or> join_accepted ra mid \<and> join_failure rb mid \<and> absent = b \<and> opponent = a
             \<and> reason = ''Player B failed to join''"
  shows "fst (run_match w mid rnd a b ea eb h)
           = Inr (JObj [(''match_id'', JStr mid), (''winner'', JStr opponent),
                        (''result'', JObj (technical_loss_result opponent reason))])
       \<and> returned_status (fst (run_match w mid rnd a b ea eb h)) = Some (JStr ''TECHNICAL_LOSS'')
       \<and> calls_to ''report_match_result'' (snd (snd (run_match w mid rnd a b ea eb h)))
           = [(league_endpoint (rh_state h),
               report_params (rh_state h) mid rnd (JStr opponent)
                 (dict_set opponent 3 (dict_set b 0 (dict_set a 0 [])))
                 (technical_loss_result opponent reason) (clock w 8))]
       \<and> reported_winner (snd (snd (run_match w mid rnd a b ea eb h))) = [Some (JStr opponent)]
       \<and> reported_score (snd (snd (run_match w mid rnd a b ea eb h))) absent = [Some (JNum 0)]
       \<and> reported_score (snd (snd (run_match w mid rnd a b ea eb h))) opponent = [Some (JNum 3)]
       \<and> reported_status (snd (snd (run_match w mid rnd a b ea eb h))) = [None]
       \<and> map fst (calls_to ''handle_game_invitation'' (snd (snd (run_match w mid rnd a b ea eb h))))
           = [ea, eb]
       \<and> calls_to ''choose_parity'' (snd (snd (run_match w mid rnd a b ea eb h))) = []
       \<and> http_traffic (snd (snd (run_match w mid rnd a b ea eb h)))
           = map (post_effect ea ''handle_game_invitation'' (request_id c1)) evs_a
             @ map (post_effect eb ''handle_game_invitation'' (request_id c2)) evs_b
             @ map (post_effect (league_endpoint (rh_state h)) ''report_match_result''
                      (request_id c3)) evs_r
       \<and> (max_retries (retry_config (rh_client h)) = 3
            \<and> base_delay (retry_config (rh_client h)) = 2
            \<and> backoff_multiplier (retry_config (rh_client h)) = 2
            \<and> (\<forall>i. invite_a_net w i = Timeout (msg_a i)) \<longrightarrow>
          join_failure ra mid
          \<and> evs_a = [Post 0, Sleep 2, Post 1, Sleep 4, Post 2])
       \<and> (max_retries (retry_config (rh_client h)) = 3
            \<and> base_delay (retry_config (rh_client h)) = 2
            \<and> backoff_multiplier (retry_config (rh_client h)) = 2
            \<and> (\<forall>i. invite_b_net w i = Timeout (msg_b i)) \<longrightarrow>
          join_failure rb mid
          \<and> evs_b = [Post 0, Sleep 2, Post 1, Sleep 4, Post 2])
       \<and> join_failure (retries_exhausted_response last_error rid) mid
       \<and> join_failure (http_error_response http_error rid) mid"
proof -
  have silent: "join_failure ra mid \<and> evs_a = [Post 0, Sleep 2, Post 1, Sleep 4, Post 2]"
    if "max_retries (retry_config (rh_client h)) = 3
            \<and> base_delay (retry_config (rh_client h)) = 2
            \<and> backoff_multiplier (retry_config (rh_client h)) = 2
            \<and> (\<forall>i. invite_a_net w i = Timeout (msg_a i))"
    using assms(2) call_loop_always_timeout[of "retry_config (rh_client h)" "invite_a_net w" msg_a
        "request_id (rh_client h) + 1"] that
    by (auto simp: call_def Let_def transport_error_is_join_failure)
  have silent_b: "join_failure rb mid \<and> evs_b = [Post 0, Sleep 2, Post 1, Sleep 4, Post 2]"
    if "max_retries (retry_config (rh_client h)) = 3
            \<and> base_delay (retry_config (rh_client h)) = 2
            \<and> backoff_multiplier (retry_config (rh_client h)) = 2
            \<and> (\<forall>i. invite_b_net w i = Timeout (msg_b i))"
  proof -
    from assms(2) have "retry_config c1 = retry_config (rh_client h)"
      by (auto simp: call_def Let_def)
    with assms(3) call_loop_always_timeout[of "retry_config c1" "invite_b_net w" msg_b
        "request_id c1 + 1"] that
    show ?thesis by (auto simp: call_def Let_def transport_error_is_join_failure)
  qed
  from assms(5) have cases:
    "join_failure ra mid \<and> opponent = b \<and> reason = ''Player A failed to join''
     \<or> join_accepted ra mid \<and> join_failure rb mid \<and> opponent = a
         \<and> reason = ''Player B failed to join''"
    by blast
  note run = run_match_failed_join[OF assms(2,3,4) cases, of rnd ea eb]
  from assms(1,5) have who: "opponent = a \<or> opponent = b"
    and absent: "absent = (if opponent = a then b else a)"
    by auto
  note rep = reported_fields[OF run[THEN conjunct2, THEN conjunct1] assms(1) who]
  have st: "returned_status (fst (run_match w mid rnd a b ea eb h)) = Some (JStr ''TECHNICAL_LOSS'')"
    by (simp add: run[THEN conjunct1] returned_status_def json_field_def technical_loss_result_def)
  from run rep st silent silent_b show ?thesis
    unfolding absent by (simp add: transport_error_is_join_failure)
qed

theorem failed_join_is_technical_loss_witness:
  "''P01'' \<noteq> ''P02''
   \<and> join_failure (retries_exhausted_response (Some ''Read timed out.'') 1) ''R1M1''
   \<and> returned_status (fst (run_match world_a_silent ''R1M1'' 1 ''P01'' ''P02''
        ''http://localhost:8101/mcp'' ''http://localhost:8102/mcp'' (RefereeHandlers RefereeState)))
       = Some (JStr ''TECHNICAL_LOSS'')
   \<and> reported_winner (snd (snd (run_match world_a_silent ''R1M1'' 1 ''P01'' ''P02''
        ''http://localhost:8101/mcp'' ''http://localhost:8102/mcp'' (RefereeHandlers RefereeState))))
       = [Some (JStr ''P02'')]
   \<and> reported_score (snd (snd (run_match world_a_silent ''R1M1'' 1 ''P01'' ''P02''
        ''http://localhost:8101/mcp'' ''http://localhost:8102/mcp'' (RefereeHandlers RefereeState))))
        ''P01'' = [Some (JNum 0)]
   \<and> reported_score (snd (snd (run_match world_a_silent ''R1M1'' 1 ''P01'' ''P02''
        ''http://localhost:8101/mcp'' ''http://localhost:8102/mcp'' (RefereeHandlers RefereeState))))
        ''P02'' = [Some (JNum 3)]
   \<and> max_retries (retry_config (rh_client (RefereeHandlers RefereeState))) = 3
   \<and> base_delay (retry_config (rh_client (RefereeHandlers RefereeState))) = 2
   \<and> backoff_multiplier (retry_config (rh_client (RefereeHandlers RefereeState))) = 2
   \<and> invite_a_net world_a_silent 0 = Timeout ''Read timed out.''
   \<and> snd (fst (call (rh_client (RefereeHandlers RefereeState)) (invite_a_net world_a_silent)))
       = [Post 0, Sleep 2, Post 1, Sleep 4, Post 2]
   \<and> join_accepted (accept_response ''R1M1'') ''R1M1''
   \<and> join_failure (accept_response ''R7M7'') ''R1M1''
   \<and> fst (run_match world_b_wrong_match ''R1M1'' 1 ''P01'' ''P02''
        ''http://localhost:8101/mcp'' ''http://localhost:8102/mcp'' (RefereeHandlers RefereeState))
       = Inr (JObj [(''match_id'', JStr ''R1M1''), (''winner'', JStr ''P01''),
                    (''result'', JObj (technical_loss_result ''P01'' ''Player B failed to join''))])
   \<and> reported_score (snd (snd (run_match world_b_wrong_match ''R1M1'' 1 ''P01'' ''P02''
        ''http://localhost:8101/mcp'' ''http://localhost:8102/mcp'' (RefereeHandlers RefereeState))))
        ''P02'' = [Some (JNum 0)]
   \<and> http_traffic (snd (snd (run_match world_b_wrong_match ''R1M1'' 1 ''P01'' ''P02''
        ''http://localhost:8101/mcp'' ''http://localhost:8102/mcp'' (RefereeHandlers RefereeState))))
       = [Posted ''http://localhost:8101/mcp'' ''handle_game_invitation'' 1 0,
          Posted ''http://localhost:8102/mcp'' ''handle_game_invitation'' 2 0,
          Posted ''http://localhost:8000/mcp'' ''report_match_result'' 3 0]
   \<and> invite_b_net world_b_silent 0 = Timeout ''Read timed out.''
   \<and> reported_winner (snd (snd (run_match world_b_silent ''R1M1'' 1 ''P01'' ''P02''
        ''http://localhost:8101/mcp'' ''http://localhost:8102/mcp'' (RefereeHandlers RefereeState))))
       = [Some (JStr ''P01'')]
   \<and> http_traffic (snd (snd (run_match world_b_silent ''R1M1'' 1 ''P01'' ''P02''
        ''http://localhost:8101/mcp'' ''http://localhost:8102/mcp'' (RefereeHandlers RefereeState))))
       = [Posted ''http://localhost:8101/mcp'' ''handle_game_invitation'' 1 0,
          Posted ''http://localhost:8102/mcp'' ''handle_game_invitation'' 2 0,
          Slept 2,
          Posted ''http://localhost:8102/mcp'' ''handle_game_invitation'' 2 1,
          Slept 4,
          Posted ''http://localhost:8102/mcp'' ''handle_game_invitation'' 2 2,
          Posted ''http://localhost:8000/mcp'' ''report_match_result'' 3 0]"
proof -
  let ?h = "RefereeHandlers RefereeState"
  have ne: "''P01'' \<noteq> ''P02''" by simp
  have fa: "join_failure (retries_exhausted_response (Some ''Read timed out.'') 1) ''R1M1''"
    by (simp add: join_failure_def retries_exhausted_response_def)
  have acc: "join_accepted (accept_response ''R1M1'') ''R1M1''"
    by (simp add: join_accepted_def accept_response_def dict_get_default_def dict_get_def)
  have fb: "join_failure (accept_response ''R7M7'') ''R1M1''"
    by (simp add: join_failure_def accept_response_def dict_get_default_def dict_get_def)
  have wa: "call (rh_client ?h) (invite_a_net world_a_silent)
        = ((Inr (retries_exhausted_response (Some ''Read timed out.'') 1),
            [Post 0, Sleep 2, Post 1, Sleep 4, Post 2]),
           \<lparr>retry_config = RetryConfig, request_id = 1\<rparr>)"
      "call \<lparr>retry_config = RetryConfig, request_id = 1\<rparr> (invite_b_net world_a_silent)
        = ((Inr (accept_response ''R1M1''), [Post 0]), \<lparr>retry_config = RetryConfig, request_id = 2\<rparr>)"
      "call \<lparr>retry_config = RetryConfig, request_id = 2\<rparr> (report_net world_a_silent)
        = ((Inr report_ack, [Post 0]), \<lparr>retry_config = RetryConfig, request_id = 3\<rparr>)"
    by (simp_all add: world_a_silent_def RefereeHandlers_def example_calls)
  have wb: "call (rh_client ?h) (invite_a_net world_b_wrong_match)
        = ((Inr (accept_response ''R1M1''), [Post 0]), \<lparr>retry_config = RetryConfig, request_id = 1\<rparr>)"
      "call \<lparr>retry_config = RetryConfig, request_id = 1\<rparr> (invite_b_net world_b_wrong_match)
        = ((Inr (accept_response ''R7M7''), [Post 0]), \<lparr>retry_config = RetryConfig, request_id = 2\<rparr>)"
      "call \<lparr>retry_config = RetryConfig, request_id = 2\<rparr> (report_net world_b_wrong_match)
        = ((Inr report_ack, [Post 0]), \<lparr>retry_config = RetryConfig, request_id = 3\<rparr>)"
    by (simp_all add: world_b_wrong_match_def world_a_silent_def RefereeHandlers_def example_calls)
  have cfg: "max_retries (retry_config (rh_client ?h)) = 3"
      "base_delay (retry_config (rh_client ?h)) = 2"
      "backoff_multiplier (retry_config (rh_client ?h)) = 2"
      "\<forall>i. invite_a_net world_a_silent i = Timeout ((\<lambda>i. ''Read timed out.'') i)"
    by (simp_all add: RefereeHandlers_def MCPClient_def RetryConfig_def world_a_silent_def
        always_times_out_def)
  note a_fails = failed_join_is_technical_loss [OF ne wa, where mid = "''R1M1''"
      and absent = "''P01''" and opponent = "''P02''" and reason = "''Player A failed to join''"
      and rnd = 1 and ea = "''http://localhost:8101/mcp''" and eb = "''http://localhost:8102/mcp''"
      and msg_a = "\<lambda>i. ''Read timed out.''"]
  note b_fails = failed_join_is_technical_loss [OF ne wb, where mid = "''R1M1''"
      and absent = "''P02''" and opponent = "''P01''" and reason = "''Player B failed to join''"
      and rnd = 1 and ea = "''http://localhost:8101/mcp''" and eb = "''http://localhost:8102/mcp''"]
  have ws: "call (rh_client ?h) (invite_a_net world_b_silent)
        = ((Inr (accept_response ''R1M1''), [Post 0]), \<lparr>retry_config = RetryConfig, request_id = 1\<rparr>)"
      "call \<lparr>retry_config = RetryConfig, request_id = 1\<rparr> (invite_b_net world_b_silent)
        = ((Inr (retries_exhausted_response (Some ''Read timed out.'') 2),
            [Post 0, Sleep 2, Post 1, Sleep 4, Post 2]),
           \<lparr>retry_config = RetryConfig, request_id = 2\<rparr>)"
      "call \<lparr>retry_config = RetryConfig, request_id = 2\<rparr> (report_net world_b_silent)
        = ((Inr report_ack, [Post 0]), \<lparr>retry_config = RetryConfig, request_id = 3\<rparr>)"
    by (simp_all add: world_b_silent_def world_a_silent_def RefereeHandlers_def example_calls)
  have cfg_b: "\<forall>i. invite_b_net world_b_silent i = Timeout ((\<lambda>i. ''Read timed out.'') i)"
    by (simp add: world_b_silent_def world_a_silent_def always_times_out_def)
  have fs: "join_failure (retries_exhausted_response (Some ''Read timed out.'') 2) ''R1M1''"
    by (simp add: join_failure_def retries_exhausted_response_def)
  note b_silent = failed_join_is_technical_loss [OF ne ws, where mid = "''R1M1''"
      and absent = "''P02''" and opponent = "''P01''" and reason = "''Player B failed to join''"
      and rnd = 1 and ea = "''http://localhost:8101/mcp''" and eb = "''http://localhost:8102/mcp''"
      and msg_b = "\<lambda>i. ''Read timed out.''"]
  from a_fails b_fails b_silent fa acc fb fs cfg cfg_b wa(1) show ?thesis
    by (simp add: post_effect_def RefereeHandlers_def RefereeState_def returned_status_def
        json_field_def technical_loss_result_def)
qed

text \<open>
  Claim C6 as stated fails on two points. In the world where every post of the invitation
  to player A times out, the invitation is posted three times, with sleeps of 2 and 4
  seconds between the posts; and the result reported to the League Manager has no status
  field.
\<close>

theorem failed_join_counterexample:
  "http_traffic (snd (snd (run_match world_a_silent ''R1M1'' 1 ''P01'' ''P02''
        ''http://localhost:8101/mcp'' ''http://localhost:8102/mcp'' (RefereeHandlers RefereeState))))
     = [Posted ''http://localhost:8101/mcp'' ''handle_game_invitation'' 1 0,
        Slept 2,
        Posted ''http://localhost:8101/mcp'' ''handle_game_invitation'' 1 1,
        Slept 4,
        Posted ''http://localhost:8101/mcp'' ''handle_game_invitation'' 1 2,
        Posted ''http://localhost:8102/mcp'' ''handle_game_invitation'' 2 0,
        Posted ''http://localhost:8000/mcp'' ''report_match_result'' 3 0]
   \<and> reported_status (snd (snd (run_match world_a_silent ''R1M1'' 1 ''P01'' ''P02''
        ''http://localhost:8101/mcp'' ''http://localhost:8102/mcp'' (RefereeHandlers RefereeState))))
     = [None]"
proof -
  let ?h = "RefereeHandlers RefereeState"
  have wa: "call (rh_client ?h) (invite_a_net world_a_silent)
        = ((Inr (retries_exhausted_response (Some ''Read timed out.'') 1),
            [Post 0, Sleep 2, Post 1, Sleep 4, Post 2]),
           \<lparr>retry_config = RetryConfig, request_id = 1\<rparr>)"
      "call \<lparr>retry_config = RetryConfig, request_id = 1\<rparr> (invite_b_net world_a_silent)
        = ((Inr (accept_response ''R1M1''), [Post 0]), \<lparr>retry_config = RetryConfig, request_id = 2\<rparr>)"
      "call \<lparr>retry_config = RetryConfig, request_id = 2\<rparr> (report_net world_a_silent)
        = ((Inr report_ack, [Post 0]), \<lparr>retry_config = RetryConfig, request_id = 3\<rparr>)"
    by (simp_all add: world_a_silent_def RefereeHandlers_def example_calls)
  have "join_failure (retries_exhausted_response (Some ''Read timed out.'') 1) ''R1M1''
          \<and> ''P02'' = ''P02'' \<and> ''Player A failed to join'' = ''Player A failed to join''
      \<or> join_accepted (retries_exhausted_response (Some ''Read timed out.'') 1) ''R1M1''
          \<and> join_failure (accept_response ''R1M1'') ''R1M1'' \<and> ''P02'' = ''P01''
          \<and> ''Player A failed to join'' = ''Player B failed to join''"
    by (simp add: transport_error_is_join_failure)
  note run = run_match_failed_join[OF wa this, where rnd = 1 and ea = "''http://localhost:8101/mcp''"
      and eb = "''http://localhost:8102/mcp''"]
  have ne: "''P01'' \<noteq> ''P02''" and who: "''P02'' = ''P01'' \<or> ''P02'' = ''P02''" by simp_all
  note rep = reported_fields(4)[OF run[THEN conjunct2, THEN conjunct1] ne who]
  from run rep show ?thesis
    by (simp add: post_effect_def RefereeHandlers_def RefereeState_def)
qed

text \<open>
  Two runs in which a player does not join and no technical loss is reported. An
  acknowledgement whose result is \<open>null\<close> makes \<open>_check_join_ack\<close> raise; and an exception
  that leaves the transport client during the first invitation ends \<open>run_match\<close>.
\<close>

lemma null_result_raises:
  "fst (run_match world_a_null_result ''R1M1'' 1 ''P01'' ''P02''
        ''http://localhost:8101/mcp'' ''http://localhost:8102/mcp'' (RefereeHandlers RefereeState))
     = Inl ''AttributeError''
   \<and> calls_to ''report_match_result''
       (snd (snd (run_match world_a_null_result ''R1M1'' 1 ''P01'' ''P02''
          ''http://localhost:8101/mcp'' ''http://localhost:8102/mcp'' (RefereeHandlers RefereeState))))
     = []"
proof -
  let ?h = "RefereeHandlers RefereeState"
  let ?null = "JObj [(''jsonrpc'', JStr ''2.0''), (''result'', JNull), (''id'', JNum 1)]"
  obtain m st1 where cm: "create_match (rh_state ?h) ''R1M1'' 1 ''P01'' ''P02''
      ''http://localhost:8101/mcp'' ''http://localhost:8102/mcp''
      (''conv-'' @ ''R1M1'' @ ''-'' @ uuid_hex world_a_null_result) = (m, st1)"
    by (metis prod.exhaust)
  have wn: "call (rh_client ?h) (invite_a_net world_a_null_result)
        = ((Inr ?null, [Post 0]), \<lparr>retry_config = RetryConfig, request_id = 1\<rparr>)"
      "call \<lparr>retry_config = RetryConfig, request_id = 1\<rparr> (invite_b_net world_a_null_result)
        = ((Inr (accept_response ''R1M1''), [Post 0]), \<lparr>retry_config = RetryConfig, request_id = 2\<rparr>)"
    by (simp_all add: world_a_null_result_def world_a_silent_def RefereeHandlers_def example_calls)
  have "then_do (check_join_ack ?null ''P01'' ''R1M1'') k h = (Inl ''AttributeError'', h, [])"
    for k :: "bool \<Rightarrow> json action" and h
    by (simp add: check_join_ack_def dict_get_default_def then_do_simps)
  from run_match_invitations[OF wn cm this]
  show ?thesis by (simp add: post_effect_def)
qed

lemma invitation_exception_propagates:
  assumes "call (rh_client h) (invite_a_net w) = ((Inl e, evs), c1)"
  shows "fst (run_match w mid rnd a b ea eb h) = Inl e
       \<and> calls_to ''report_match_result'' (snd (snd (run_match w mid rnd a b ea eb h))) = []"
  using assms
  by (simp add: run_match_def Let_def then_do_def state_create_match_def log_def
      send_game_invitation_def client_call_def calls_to_posts split: prod.splits)

end
